theory Spec2Isabelle
  imports Main "HOL-Library.Word" "HOL-Library.Multiset" "HOL-Library.Sublist"
begin

section \<open>Identifiers, text and SQL truth values\<close>

text \<open>
  The migration types every identifier as \<^verbatim>\<open>UUID\<close>: a 128-bit value. The storage
  policies compare \<^verbatim>\<open>auth.uid()::text\<close>, the canonical text of the identifier
  (32 lower-case hexadecimal digits grouped 8-4-4-4-12), with a folder name.
\<close>

type_synonym uuid = "128 word"

definition hexdigit :: "nat \<Rightarrow> char" where
  "hexdigit d = ''0123456789abcdef'' ! d"

fun hexn :: "nat \<Rightarrow> nat \<Rightarrow> string" where
  "hexn 0 n = []"
| "hexn (Suc k) n = hexn k (n div 16) @ [hexdigit (n mod 16)]"

definition uuid_text :: "uuid \<Rightarrow> string" where
  "uuid_text u =
     (let h = hexn 32 (unat u)
      in take 8 h @ ''-'' @ take 4 (drop 8 h) @ ''-'' @ take 4 (drop 12 h) @ ''-''
         @ take 4 (drop 16 h) @ ''-'' @ drop 20 h)"

text \<open>
  Splitting a string at a separator, as \<^verbatim>\<open>file.name.split(".")\<close> does in the client
  and \<^verbatim>\<open>string_to_array(name, '/')\<close> in SQL: the pieces between the separators, always
  at least one piece. (SQL gives the empty array for the empty string; the folders of
  the empty name are none either way.)
\<close>

fun split_on :: "char \<Rightarrow> string \<Rightarrow> string list" where
  "split_on c [] = [[]]"
| "split_on c (x # xs) =
     (if x = c then [] # split_on c xs
      else (case split_on c xs of
              [] \<Rightarrow> [[x]]
            | p # ps \<Rightarrow> (x # p) # ps))"

text \<open>
  \<^verbatim>\<open>storage.foldername(name)\<close> is a function of the storage platform: the array of
  the path's pieces without the last one (the file name). \<^verbatim>\<open>(...)[1]\<close> reads the
  first element of an SQL array, which is NULL when the array has none.
\<close>

definition foldername :: "string \<Rightarrow> string list" where
  "foldername name = butlast (split_on CHR ''/'' name)"

definition array_first :: "'a list \<Rightarrow> 'a option" where
  "array_first xs = (case xs of [] \<Rightarrow> None | x # _ \<Rightarrow> Some x)"

text \<open>
  SQL comparisons are three-valued: \<open>None\<close> is NULL. A row-level security
  expression admits a row only when it evaluates to true; NULL counts as a refusal.
\<close>

type_synonym sqlbool = "bool option"

definition sql_eq :: "'a option \<Rightarrow> 'a option \<Rightarrow> sqlbool" where
  "sql_eq a b = (case a of None \<Rightarrow> None
                 | Some x \<Rightarrow> (case b of None \<Rightarrow> None | Some y \<Rightarrow> Some (x = y)))"

definition sql_and :: "sqlbool \<Rightarrow> sqlbool \<Rightarrow> sqlbool" where
  "sql_and a b =
     (if a = Some False \<or> b = Some False then Some False
      else if a = Some True \<and> b = Some True then Some True
      else None)"

section \<open>Tables of the migration\<close>

text \<open>
  \<^verbatim>\<open>public.profiles\<close> and \<^verbatim>\<open>public.photos\<close> share the columns \<open>id\<close> (here \<open>row_id\<close>),
  \<open>user_id\<close> and \<open>created_at\<close>; \<open>user_id\<close> is NOT NULL in both. Timestamps are
  microseconds since the epoch. \<^verbatim>\<open>auth.users\<close> and \<^verbatim>\<open>storage.objects\<close> belong to
  the platform; only the columns the migration and the client use are kept (of an
  object's \<^verbatim>\<open>metadata\<close>, the content type and the size).
\<close>

record owned =
  row_id :: uuid
  user_id :: uuid
  created_at :: int

record profile = owned +
  email :: "string option"

record photo = owned +
  file_name :: string
  file_path :: string
  file_size :: "int option"

record auth_user =
  user_uid :: uuid
  user_email :: "string option"

record storage_object =
  bucket_id :: string
  name :: string
  mimetype :: string
  byte_size :: nat

record database =
  auth_users :: "auth_user list"
  public_profiles :: "profile list"
  public_photos :: "photo list"
  storage_objects :: "storage_object list"

section \<open>Row-level security\<close>

datatype command = SELECT | INSERT | UPDATE | DELETE

text \<open>
  A policy as \<^verbatim>\<open>CREATE POLICY\<close> declares it: the command it is for, its
  \<^verbatim>\<open>USING\<close> expression and its \<^verbatim>\<open>WITH CHECK\<close> expression, each over the
  caller's \<^verbatim>\<open>auth.uid()\<close> (NULL for a request without a session) and the row.
\<close>

record 'r policy =
  policy_name :: string
  for_cmd :: command
  using_expr :: "(uuid option \<Rightarrow> 'r \<Rightarrow> sqlbool) option"
  with_check :: "(uuid option \<Rightarrow> 'r \<Rightarrow> sqlbool) option"

definition own_row :: "uuid option \<Rightarrow> 'a owned_scheme \<Rightarrow> sqlbool" where
  \<comment> \<open>\<^verbatim>\<open>auth.uid() = user_id\<close>\<close>
  "own_row uid r = sql_eq uid (Some (user_id r))"

definition profiles_policies :: "profile policy list" where
  "profiles_policies =
     [\<lparr>policy_name = ''Users can view own profile'', for_cmd = SELECT,
        using_expr = Some own_row, with_check = None\<rparr>,
      \<lparr>policy_name = ''Users can insert own profile'', for_cmd = INSERT,
        using_expr = None, with_check = Some own_row\<rparr>,
      \<lparr>policy_name = ''Users can update own profile'', for_cmd = UPDATE,
        using_expr = Some own_row, with_check = None\<rparr>]"

definition photos_policies :: "photo policy list" where
  "photos_policies =
     [\<lparr>policy_name = ''Users can view own photos'', for_cmd = SELECT,
        using_expr = Some own_row, with_check = None\<rparr>,
      \<lparr>policy_name = ''Users can insert own photos'', for_cmd = INSERT,
        using_expr = None, with_check = Some own_row\<rparr>,
      \<lparr>policy_name = ''Users can delete own photos'', for_cmd = DELETE,
        using_expr = Some own_row, with_check = None\<rparr>]"

definition in_photos_bucket :: "uuid option \<Rightarrow> storage_object \<Rightarrow> sqlbool" where
  \<comment> \<open>\<^verbatim>\<open>bucket_id = 'photos'\<close>\<close>
  "in_photos_bucket uid ob = sql_eq (Some (bucket_id ob)) (Some ''photos'')"

definition own_folder :: "uuid option \<Rightarrow> storage_object \<Rightarrow> sqlbool" where
  \<comment> \<open>\<^verbatim>\<open>bucket_id = 'photos' AND auth.uid()::text = (storage.foldername(name))[1]\<close>\<close>
  "own_folder uid ob =
     sql_and (in_photos_bucket uid ob)
       (sql_eq (map_option uuid_text uid) (array_first (foldername (name ob))))"

definition objects_policies :: "storage_object policy list" where
  "objects_policies =
     [\<lparr>policy_name = ''Users can upload own photos'', for_cmd = INSERT,
        using_expr = None, with_check = Some own_folder\<rparr>,
      \<lparr>policy_name = ''Users can view own photos'', for_cmd = SELECT,
        using_expr = Some own_folder, with_check = None\<rparr>,
      \<lparr>policy_name = ''Users can delete own photos'', for_cmd = DELETE,
        using_expr = Some own_folder, with_check = None\<rparr>,
      \<lparr>policy_name = ''Public can view photos'', for_cmd = SELECT,
        using_expr = Some in_photos_bucket, with_check = None\<rparr>]"

text \<open>
  With row-level security enabled on a table (lines 10 and 44 of the migration; the
  platform enables it on \<^verbatim>\<open>storage.objects\<close>), a command touches a row only when
  one of the table's policies for that command admits it: the policies are permissive
  and combine by OR, and a command with no policy is refused. An expression left out
  of a policy does not restrict; \<^verbatim>\<open>WITH CHECK\<close> falls back to \<^verbatim>\<open>USING\<close>.
\<close>

definition holds :: "(uuid option \<Rightarrow> 'r \<Rightarrow> sqlbool) option \<Rightarrow> uuid option \<Rightarrow> 'r \<Rightarrow> bool" where
  "holds e uid r = (case e of None \<Rightarrow> True | Some f \<Rightarrow> f uid r = Some True)"

definition admits_using :: "'r policy list \<Rightarrow> command \<Rightarrow> uuid option \<Rightarrow> 'r \<Rightarrow> bool" where
  "admits_using pols c uid r =
     list_ex (\<lambda>p. for_cmd p = c \<and> holds (using_expr p) uid r) pols"

definition admits_check :: "'r policy list \<Rightarrow> command \<Rightarrow> uuid option \<Rightarrow> 'r \<Rightarrow> bool" where
  "admits_check pols c uid r =
     list_ex (\<lambda>p. for_cmd p = c \<and>
        (case with_check p of None \<Rightarrow> holds (using_expr p) uid r
         | Some f \<Rightarrow> f uid r = Some True)) pols"

definition select_allowed :: "'r policy list \<Rightarrow> uuid option \<Rightarrow> 'r \<Rightarrow> bool" where
  "select_allowed pols uid r = admits_using pols SELECT uid r"

definition insert_allowed :: "'r policy list \<Rightarrow> uuid option \<Rightarrow> 'r \<Rightarrow> bool" where
  "insert_allowed pols uid r = admits_check pols INSERT uid r"

definition delete_allowed :: "'r policy list \<Rightarrow> uuid option \<Rightarrow> 'r \<Rightarrow> bool" where
  "delete_allowed pols uid r = admits_using pols DELETE uid r"

definition update_allowed :: "'r policy list \<Rightarrow> uuid option \<Rightarrow> 'r \<Rightarrow> 'r \<Rightarrow> bool" where
  "update_allowed pols uid old new =
     (admits_using pols UPDATE uid old \<and> admits_check pols UPDATE uid new)"

section \<open>Statements on the tables\<close>

datatype api_error =
    UniqueViolation string
  | ForeignKeyViolation string
  | RowLevelSecurity string
  | OutOfRange string
  | Transport string

text \<open>
  \<^verbatim>\<open>INSERT INTO public.profiles\<close> with the table's constraints and no policy: what a
  role that bypasses row-level security runs. The constraints are the primary key, the
  UNIQUE on \<open>user_id\<close> and the reference to \<^verbatim>\<open>auth.users(id)\<close>.
\<close>

definition insert_profile_row :: "profile \<Rightarrow> database \<Rightarrow> api_error + database" where
  "insert_profile_row p d =
     (if row_id p \<in> set (map row_id (public_profiles d)) then Inl (UniqueViolation ''profiles_pkey'')
      else if user_id p \<in> set (map user_id (public_profiles d))
        then Inl (UniqueViolation ''profiles_user_id_key'')
      else if user_id p \<notin> set (map user_uid (auth_users d))
        then Inl (ForeignKeyViolation ''profiles_user_id_fkey'')
      else Inr (d\<lparr>public_profiles := public_profiles d @ [p]\<rparr>))"

text \<open>The same statement from a request of the API, under the table's policies.\<close>

definition insert_profile :: "uuid option \<Rightarrow> profile \<Rightarrow> database \<Rightarrow> api_error + database" where
  "insert_profile uid p d =
     (if insert_allowed profiles_policies uid p then insert_profile_row p d
      else Inl (RowLevelSecurity ''profiles''))"

text \<open>
  \<^verbatim>\<open>handle_new_user\<close> (lines 17 to 28): the trigger function inserts
  \<^verbatim>\<open>(NEW.id, NEW.email)\<close>. It is \<^verbatim>\<open>SECURITY DEFINER\<close>, so the statement runs as
  the function's owner and not under the policies. The column defaults
  \<^verbatim>\<open>gen_random_uuid()\<close> and \<^verbatim>\<open>now()\<close> are the parameters \<open>fresh\<close> and \<open>now\<close>.
\<close>

definition handle_new_user :: "uuid \<Rightarrow> int \<Rightarrow> auth_user \<Rightarrow> database \<Rightarrow> api_error + database" where
  "handle_new_user fresh now NEW d =
     insert_profile_row
       \<lparr>row_id = fresh, user_id = user_uid NEW, created_at = now, email = user_email NEW\<rparr> d"

text \<open>
  Creating a user is an insert into \<^verbatim>\<open>auth.users\<close>; the trigger
  \<^verbatim>\<open>on_auth_user_created\<close> (lines 30 to 32) runs the function after the insert of
  each row, inside the same statement: an error of the function is the error of the
  insert, and no new database comes out of it.
\<close>

definition insert_auth_user :: "uuid \<Rightarrow> int \<Rightarrow> auth_user \<Rightarrow> database \<Rightarrow> api_error + database" where
  "insert_auth_user fresh now u d =
     (if user_uid u \<in> set (map user_uid (auth_users d)) then Inl (UniqueViolation ''users_pkey'')
      else handle_new_user fresh now u (d\<lparr>auth_users := auth_users d @ [u]\<rparr>))"

text \<open>
  The calls of the client's SDK. \<open>fault\<close> is a failure outside the database (the
  network, the server): the call returns that error and changes nothing. Otherwise the
  statement runs under the policies with the session's identity \<open>uid\<close>.
\<close>

definition storage_upload ::
  "api_error option \<Rightarrow> uuid option \<Rightarrow> string \<Rightarrow> string \<Rightarrow> nat \<Rightarrow> database
     \<Rightarrow> api_error option \<times> database" where
  \<comment> \<open>\<^verbatim>\<open>supabase.storage.from("photos").upload(path, file)\<close>\<close>
  "storage_upload fault uid path ctype sz d =
     (case fault of
        Some e \<Rightarrow> (Some e, d)
      | None \<Rightarrow>
          (let ob = \<lparr>bucket_id = ''photos'', name = path, mimetype = ctype, byte_size = sz\<rparr>
           in if \<not> insert_allowed objects_policies uid ob
                then (Some (RowLevelSecurity ''objects''), d)
              else if (''photos'', path) \<in> set (map (\<lambda>x. (bucket_id x, name x)) (storage_objects d))
                then (Some (UniqueViolation ''bucketid_objname''), d)
              else (None, d\<lparr>storage_objects := storage_objects d @ [ob]\<rparr>)))"

definition storage_remove ::
  "api_error option \<Rightarrow> uuid option \<Rightarrow> string list \<Rightarrow> database \<Rightarrow> api_error option \<times> database" where
  \<comment> \<open>\<^verbatim>\<open>supabase.storage.from("photos").remove(paths)\<close>: the objects the caller may
      delete go, the others stay, and neither is an error\<close>
  "storage_remove fault uid paths d =
     (case fault of
        Some e \<Rightarrow> (Some e, d)
      | None \<Rightarrow>
          (None, d\<lparr>storage_objects :=
             filter (\<lambda>x. \<not> (bucket_id x = ''photos'' \<and> name x \<in> set paths
                              \<and> delete_allowed objects_policies uid x))
               (storage_objects d)\<rparr>))"

definition photos_insert ::
  "api_error option \<Rightarrow> uuid option \<Rightarrow> uuid \<Rightarrow> int \<Rightarrow> uuid \<Rightarrow> string \<Rightarrow> string \<Rightarrow> nat \<Rightarrow> database
     \<Rightarrow> api_error option \<times> database" where
  \<comment> \<open>\<^verbatim>\<open>supabase.from("photos").insert({user_id, file_name, file_path, file_size})\<close>;
      \<open>file_size\<close> is a BIGINT, a value from \<open>2 ^ 63\<close> on is no value of the column\<close>
  "photos_insert fault uid fresh now owner fname fpath fsize d =
     (case fault of
        Some e \<Rightarrow> (Some e, d)
      | None \<Rightarrow>
          if 2 ^ 63 \<le> fsize then (Some (OutOfRange ''bigint''), d)
          else
          (let r = \<lparr>row_id = fresh, user_id = owner, created_at = now,
                    file_name = fname, file_path = fpath, file_size = Some (int fsize)\<rparr>
           in if \<not> insert_allowed photos_policies uid r
                then (Some (RowLevelSecurity ''photos''), d)
              else if row_id r \<in> set (map row_id (public_photos d))
                then (Some (UniqueViolation ''photos_pkey''), d)
              else if user_id r \<notin> set (map user_uid (auth_users d))
                then (Some (ForeignKeyViolation ''photos_user_id_fkey''), d)
              else (None, d\<lparr>public_photos := public_photos d @ [r]\<rparr>)))"

definition photos_delete ::
  "api_error option \<Rightarrow> uuid option \<Rightarrow> uuid \<Rightarrow> database \<Rightarrow> api_error option \<times> database" where
  \<comment> \<open>\<^verbatim>\<open>supabase.from("photos").delete().eq("id", pid)\<close>\<close>
  "photos_delete fault uid pid d =
     (case fault of
        Some e \<Rightarrow> (Some e, d)
      | None \<Rightarrow>
          (None, d\<lparr>public_photos :=
             filter (\<lambda>r. \<not> (row_id r = pid \<and> delete_allowed photos_policies uid r))
               (public_photos d)\<rparr>))"

definition order_desc :: "photo list \<Rightarrow> photo list" where
  \<comment> \<open>\<^verbatim>\<open>.order("created_at", { ascending: false })\<close>\<close>
  "order_desc rs = rev (sort_key created_at rs)"

definition photos_select :: "api_error option \<Rightarrow> uuid option \<Rightarrow> database \<Rightarrow> api_error + photo list" where
  \<comment> \<open>\<^verbatim>\<open>supabase.from("photos").select("*").order("created_at", { ascending: false })\<close>\<close>
  "photos_select fault uid d =
     (case fault of
        Some e \<Rightarrow> Inl e
      | None \<Rightarrow> Inr (order_desc (filter (select_allowed photos_policies uid) (public_photos d))))"

section \<open>The gallery of the client\<close>

text \<open>
  A browser \<^verbatim>\<open>File\<close>: its \<^verbatim>\<open>name\<close>, \<^verbatim>\<open>type\<close> and \<^verbatim>\<open>size\<close>.
\<close>

record upload_file =
  fileName :: string
  fileType :: string
  fileSize :: nat

text \<open>
  The notifications: \<^verbatim>\<open>toast.error\<close> with the fixed texts of lines 182, 195 and 199,
  \<^verbatim>\<open>toast.success\<close> with those of lines 222 and 256, and \<^verbatim>\<open>toast.error(error.message)\<close>
  of the two catch blocks.
\<close>

datatype toast =
    ErrorLoadingPhotos
  | OnlyImagesAllowed
  | FileTooLarge
  | PhotoUploaded
  | PhotoDeleted
  | ErrorMessage api_error

datatype request =
    StorageUpload string upload_file
  | StorageRemove "string list"
  | PhotosInsert uuid string string nat
  | PhotosDelete uuid
  | PhotosSelect

text \<open>
  The component's state (\<^verbatim>\<open>useState\<close>), with the notifications shown so far.
  \<open>userId\<close> is \<^verbatim>\<open>session.user.id\<close>, null before the session is known.
\<close>

record gallery =
  photos :: "photo list"
  uploading :: bool
  userId :: "uuid option"
  toasts :: "toast list"

text \<open>
  The client with what it talks to: the identity of the SDK's session, the database,
  and the requests sent so far, in order.
\<close>

record world =
  ui :: gallery
  session :: "uuid option"
  db :: database
  sent :: "request list"

text \<open>
  What a call takes from outside: the clock of the browser (\<^verbatim>\<open>Date.now()\<close>, in
  milliseconds), the defaults the database draws for a new row, and whether each call
  of the SDK fails outside the database.
\<close>

record outside =
  date_now :: nat
  gen_random_uuid :: uuid
  db_now :: int
  upload_fault :: "api_error option"
  insert_fault :: "api_error option"
  select_fault :: "api_error option"
  remove_fault :: "api_error option"
  delete_fault :: "api_error option"

definition notify :: "toast \<Rightarrow> world \<Rightarrow> world" where
  "notify t w = w\<lparr>ui := (ui w)\<lparr>toasts := toasts (ui w) @ [t]\<rparr>\<rparr>"

definition setPhotos :: "photo list \<Rightarrow> world \<Rightarrow> world" where
  "setPhotos ps w = w\<lparr>ui := (ui w)\<lparr>photos := ps\<rparr>\<rparr>"

definition setUploading :: "bool \<Rightarrow> world \<Rightarrow> world" where
  "setUploading b w = w\<lparr>ui := (ui w)\<lparr>uploading := b\<rparr>\<rparr>"

definition send :: "request \<Rightarrow> world \<Rightarrow> world" where
  "send r w = w\<lparr>sent := sent w @ [r]\<rparr>"

fun digits :: "nat \<Rightarrow> string" where
  \<comment> \<open>a number inside a template literal: its decimal digits\<close>
  "digits n = (if n < 10 then [hexdigit n] else digits (n div 10) @ [hexdigit (n mod 10)])"

declare digits.simps [simp del]

definition pop :: "'a list \<Rightarrow> 'a option" where
  \<comment> \<open>\<^verbatim>\<open>Array.prototype.pop\<close>: the last element, \<^verbatim>\<open>undefined\<close> on an empty array\<close>
  "pop xs = (if xs = [] then None else Some (last xs))"

definition interpolate :: "string option \<Rightarrow> string" where
  \<comment> \<open>a value inside a template literal\<close>
  "interpolate v = (case v of None \<Rightarrow> ''undefined'' | Some s \<Rightarrow> s)"

text \<open>
  The three functions of the component that talk to the backend (lines 175 to 186, 192 to
  229 and 243 to 261), each as one run from call to return: an awaited call is a step on
  the database, \<^verbatim>\<open>throw\<close> inside \<^verbatim>\<open>try\<close> is the branch that goes to the catch block, and
  \<^verbatim>\<open>finally\<close> is applied to every outcome after it. \<open>uploadFile\<close> calls \<open>fetchPhotos\<close>
  without awaiting it; the two touch different fields of the state, so its effect is
  taken before \<^verbatim>\<open>setUploading(false)\<close>. Several uploads started together are not
  interleaved here.
\<close>

definition fetchPhotos :: "outside \<Rightarrow> world \<Rightarrow> world" where
  "fetchPhotos env w =
     (case userId (ui w) of
        None \<Rightarrow> w
      | Some _ \<Rightarrow>
          (case photos_select (select_fault env) (session w) (db w) of
             Inl e \<Rightarrow> notify ErrorLoadingPhotos (send PhotosSelect w)
           | Inr data \<Rightarrow> setPhotos data (send PhotosSelect w)))"

definition fileExt :: "upload_file \<Rightarrow> string option" where
  \<comment> \<open>\<^verbatim>\<open>file.name.split(".").pop()\<close>\<close>
  "fileExt file = pop (split_on CHR ''.'' (fileName file))"

definition filePath :: "outside \<Rightarrow> uuid \<Rightarrow> upload_file \<Rightarrow> string" where
  \<comment> \<open>\<^verbatim>\<open>`${userId}/${fileName}`\<close> with \<^verbatim>\<open>fileName = `${Date.now()}.${fileExt}`\<close>\<close>
  "filePath env uid file =
     uuid_text uid @ ''/'' @ (digits (date_now env) @ ''.'' @ interpolate (fileExt file))"

definition uploadFile :: "outside \<Rightarrow> upload_file \<Rightarrow> world \<Rightarrow> world" where
  "uploadFile env file w =
     (case userId (ui w) of
        None \<Rightarrow> w
      | Some uid \<Rightarrow>
          if \<not> prefix ''image/'' (fileType file) then notify OnlyImagesAllowed w
          else if fileSize file > 10 * 1024 * 1024 then notify FileTooLarge w
          else
            (let w1 = send (StorageUpload (filePath env uid file) file) (setUploading True w);
                 (uploadError, d1) =
                   storage_upload (upload_fault env) (session w) (filePath env uid file)
                     (fileType file) (fileSize file) (db w)
             in case uploadError of
                  Some e \<Rightarrow> setUploading False (notify (ErrorMessage e) (w1\<lparr>db := d1\<rparr>))
                | None \<Rightarrow>
                    (let w2 = send (PhotosInsert uid (fileName file) (filePath env uid file)
                                      (fileSize file))
                                (w1\<lparr>db := d1\<rparr>);
                         (dbError, d2) =
                           photos_insert (insert_fault env) (session w) (gen_random_uuid env)
                             (db_now env) uid (fileName file) (filePath env uid file)
                             (fileSize file) d1
                     in case dbError of
                          Some e \<Rightarrow> setUploading False (notify (ErrorMessage e) (w2\<lparr>db := d2\<rparr>))
                        | None \<Rightarrow>
                            setUploading False
                              (fetchPhotos env (notify PhotoUploaded (w2\<lparr>db := d2\<rparr>))))))"

definition deletePhoto :: "outside \<Rightarrow> photo \<Rightarrow> world \<Rightarrow> world" where
  "deletePhoto env photo w =
     (let w1 = send (StorageRemove [file_path photo]) w;
          (storageError, d1) =
            storage_remove (remove_fault env) (session w) [file_path photo] (db w)
      in case storageError of
           Some e \<Rightarrow> notify (ErrorMessage e) (w1\<lparr>db := d1\<rparr>)
         | None \<Rightarrow>
             (let w2 = send (PhotosDelete (row_id photo)) (w1\<lparr>db := d1\<rparr>);
                  (dbError, d2) = photos_delete (delete_fault env) (session w) (row_id photo) d1
              in case dbError of
                   Some e \<Rightarrow> notify (ErrorMessage e) (w2\<lparr>db := d2\<rparr>)
                 | None \<Rightarrow>
                     setPhotos (filter (\<lambda>p. row_id p \<noteq> row_id photo) (photos (ui w2)))
                       (notify PhotoDeleted (w2\<lparr>db := d2\<rparr>))))"

text \<open>
  The two calls of \<open>uploadFile\<close>, named: the upload of the binary, and the insert of
  the metadata row on the database the upload left.
\<close>

abbreviation upload_call :: "outside \<Rightarrow> uuid \<Rightarrow> upload_file \<Rightarrow> world \<Rightarrow> api_error option \<times> database" where
  "upload_call env uid file w \<equiv>
     storage_upload (upload_fault env) (session w) (filePath env uid file)
       (fileType file) (fileSize file) (db w)"

abbreviation insert_call :: "outside \<Rightarrow> uuid \<Rightarrow> upload_file \<Rightarrow> world \<Rightarrow> api_error option \<times> database" where
  "insert_call env uid file w \<equiv>
     photos_insert (insert_fault env) (session w) (gen_random_uuid env) (db_now env) uid
       (fileName file) (filePath env uid file) (fileSize file) (snd (upload_call env uid file w))"

section \<open>Words of the specification\<close>




section \<open>An example gallery\<close>

text \<open>
  A signed-in user with one photo, stored under her own folder, and an outside where no
  call fails: the concrete state on which the client's theorems are instantiated.
\<close>

definition alice :: uuid where "alice = 1"

definition cat_row :: photo where
  "cat_row = \<lparr>row_id = 20, user_id = alice, created_at = 5, file_name = ''cat.png'',
              file_path = uuid_text alice @ ''/5.png'', file_size = Some 3\<rparr>"

definition cat_object :: storage_object where
  "cat_object = \<lparr>bucket_id = ''photos'', name = uuid_text alice @ ''/5.png'',
                 mimetype = ''image/png'', byte_size = 3\<rparr>"

definition alice_world :: world where
  "alice_world =
     \<lparr>ui = \<lparr>photos = [cat_row], uploading = False, userId = Some alice, toasts = []\<rparr>,
      session = Some alice,
      db = \<lparr>auth_users = [\<lparr>user_uid = alice, user_email = Some ''a@example.org''\<rparr>],
            public_profiles = [\<lparr>row_id = 10, user_id = alice, created_at = 0,
                                email = Some ''a@example.org''\<rparr>],
            public_photos = [cat_row],
            storage_objects = [cat_object]\<rparr>,
      sent = []\<rparr>"

definition calm :: outside where
  "calm = \<lparr>date_now = 1700000000000, gen_random_uuid = 21, db_now = 9,
            upload_fault = None, insert_fault = None, select_fault = None,
            remove_fault = None, delete_fault = None\<rparr>"

definition bob :: uuid where "bob = 2"

definition album :: "photo list" where
  "album =
     [\<lparr>row_id = 20, user_id = alice, created_at = 5, file_name = ''cat.png'',
       file_path = ''a/5.png'', file_size = Some 3\<rparr>,
      \<lparr>row_id = 21, user_id = bob, created_at = 6, file_name = ''dog.png'',
       file_path = ''b/6.png'', file_size = Some 4\<rparr>,
      \<lparr>row_id = 22, user_id = alice, created_at = 8, file_name = ''owl.png'',
       file_path = ''a/8.png'', file_size = None\<rparr>,
      \<lparr>row_id = 23, user_id = alice, created_at = 7, file_name = ''bee.png'',
       file_path = ''a/7.png'', file_size = Some 5\<rparr>]"

definition owl_file :: upload_file where
  "owl_file = \<lparr>fileName = ''owl.png'', fileType = ''image/png'', fileSize = 5 * 1024 * 1024\<rparr>"

definition big_file :: upload_file where
  "big_file = \<lparr>fileName = ''big.png'', fileType = ''image/png'', fileSize = 11 * 1024 * 1024\<rparr>"

definition text_file :: upload_file where
  "text_file = \<lparr>fileName = ''notes.txt'', fileType = ''text/plain'', fileSize = 12\<rparr>"


text \<open>The component before its session is known, as it is first rendered.\<close>

definition signed_out_world :: world where
  "signed_out_world =
     \<lparr>ui = \<lparr>photos = [], uploading = False, userId = None, toasts = []\<rparr>,
      session = None,
      db = db alice_world,
      sent = []\<rparr>"

section \<open>Facts about the text of an identifier\<close>

lemma length_hexn: "length (hexn k n) = k"
  by (induction k arbitrary: n) auto

lemma hexdigit_inj: "a < 16 \<Longrightarrow> b < 16 \<Longrightarrow> hexdigit a = hexdigit b \<Longrightarrow> a = b"
proof -
  assume a: "a < 16" and b: "b < 16" and e: "hexdigit a = hexdigit b"
  have d: "distinct ''0123456789abcdef''" by simp
  have l: "length ''0123456789abcdef'' = 16" by simp
  from a b e d l show "a = b"
    unfolding hexdigit_def by (metis nth_eq_iff_index_eq)
qed

lemma hexn_inj: "n < 16 ^ k \<Longrightarrow> m < 16 ^ k \<Longrightarrow> hexn k n = hexn k m \<Longrightarrow> n = m"
proof (induction k arbitrary: n m)
  case 0
  then show ?case by simp
next
  case (Suc k)
  from Suc.prems(3) have hi: "hexn k (n div 16) = hexn k (m div 16)"
    and lo: "hexdigit (n mod 16) = hexdigit (m mod 16)"
    by (simp_all add: length_hexn)
  have "n div 16 < 16 ^ k" "m div 16 < 16 ^ k"
    using Suc.prems(1,2) by (simp_all add: less_mult_imp_div_less mult.commute)
  then have q: "n div 16 = m div 16" using hi by (intro Suc.IH)
  have r: "n mod 16 = m mod 16" using lo by (intro hexdigit_inj) simp_all
  from q r show ?case by (metis div_mult_mod_eq)
qed

lemma hexdigit_no_dash: "d < 16 \<Longrightarrow> hexdigit d \<noteq> CHR ''-''"
proof -
  assume "d < 16"
  then have "hexdigit d \<in> set ''0123456789abcdef''"
    unfolding hexdigit_def by (intro nth_mem) simp
  then show ?thesis by auto
qed

lemma hexn_no_dash: "CHR ''-'' \<notin> set (hexn k n)"
proof (induction k arbitrary: n)
  case 0
  then show ?case by simp
next
  case (Suc k)
  have "hexdigit (n mod 16) \<noteq> CHR ''-''" by (rule hexdigit_no_dash) simp
  with Suc.IH [of "n div 16"] show ?case by auto
qed

lemma hexn_filter: "filter (\<lambda>c. c \<noteq> CHR ''-'') (hexn k n) = hexn k n"
  using hexn_no_dash [of k n] by (auto simp: filter_id_conv)

lemma filter_take_id: "filter P xs = xs \<Longrightarrow> filter P (take n xs) = take n xs"
  by (auto simp: filter_id_conv dest: in_set_takeD)

lemma filter_drop_id: "filter P xs = xs \<Longrightarrow> filter P (drop n xs) = drop n xs"
  by (auto simp: filter_id_conv dest: in_set_dropD)

lemma regroup: "take 8 h @ take 4 (drop 8 h) @ take 4 (drop 12 h) @ take 4 (drop 16 h) @ drop 20 h = h"
proof -
  have a: "take 4 (drop 16 h) @ drop 20 h = drop 16 h"
    using append_take_drop_id [of 4 "drop 16 h"] by simp
  have b: "take 4 (drop 12 h) @ drop 16 h = drop 12 h"
    using append_take_drop_id [of 4 "drop 12 h"] by simp
  have c: "take 4 (drop 8 h) @ drop 12 h = drop 8 h"
    using append_take_drop_id [of 4 "drop 8 h"] by simp
  show ?thesis by (simp only: a b c append_take_drop_id)
qed

lemma uuid_text_undash: "filter (\<lambda>c. c \<noteq> CHR ''-'') (uuid_text u) = hexn 32 (unat u)"
proof -
  let ?h = "hexn 32 (unat u)"
  let ?P = "\<lambda>c. c \<noteq> CHR ''-''"
  have f: "filter ?P ?h = ?h" by (rule hexn_filter)
  have "filter ?P (uuid_text u) =
      take 8 ?h @ take 4 (drop 8 ?h) @ take 4 (drop 12 ?h) @ take 4 (drop 16 ?h) @ drop 20 ?h"
    unfolding uuid_text_def Let_def filter_append
    by (simp only: filter_take_id [OF f] filter_drop_id [OF filter_drop_id [OF f]] filter_drop_id [OF f]
        filter_take_id [OF filter_drop_id [OF f]] filter.simps append_Nil append_Nil2 simp_thms if_False if_True)
  then show ?thesis by (simp only: regroup)
qed

lemma uuid_text_inj: "uuid_text a = uuid_text b \<Longrightarrow> a = b"
proof -
  assume "uuid_text a = uuid_text b"
  then have "hexn 32 (unat a) = hexn 32 (unat b)"
    by (metis uuid_text_undash)
  moreover have "unat a < 16 ^ 32" "unat b < 16 ^ 32"
    using unsigned_less [of a, where ?'a = nat] unsigned_less [of b, where ?'a = nat] by simp_all
  ultimately have "unat a = unat b" by (intro hexn_inj)
  then show "a = b" by (simp add: word_unat_eq_iff)
qed


section \<open>What the policies decide\<close>

lemma own_row_iff: "own_row uid r = Some True \<longleftrightarrow> uid = Some (user_id r)"
  by (auto simp: own_row_def sql_eq_def split: option.splits)

lemma photos_select_iff: "select_allowed photos_policies uid r \<longleftrightarrow> uid = Some (user_id r)"
  by (simp add: select_allowed_def admits_using_def holds_def photos_policies_def own_row_iff)

lemma photos_insert_iff: "insert_allowed photos_policies uid r \<longleftrightarrow> uid = Some (user_id r)"
  by (simp add: insert_allowed_def admits_check_def holds_def photos_policies_def own_row_iff)

lemma photos_delete_iff: "delete_allowed photos_policies uid r \<longleftrightarrow> uid = Some (user_id r)"
  by (simp add: delete_allowed_def admits_using_def holds_def photos_policies_def own_row_iff)

lemma profiles_select_iff: "select_allowed profiles_policies uid r \<longleftrightarrow> uid = Some (user_id r)"
  by (simp add: select_allowed_def admits_using_def holds_def profiles_policies_def own_row_iff)

lemma profiles_insert_iff: "insert_allowed profiles_policies uid r \<longleftrightarrow> uid = Some (user_id r)"
  by (simp add: insert_allowed_def admits_check_def holds_def profiles_policies_def own_row_iff)

lemma profiles_update_iff:
  "update_allowed profiles_policies uid old new \<longleftrightarrow> uid = Some (user_id old) \<and> uid = Some (user_id new)"
  by (simp add: update_allowed_def admits_using_def admits_check_def holds_def profiles_policies_def own_row_iff)

lemma profiles_no_delete: "\<not> delete_allowed profiles_policies uid r"
  by (simp add: delete_allowed_def admits_using_def profiles_policies_def)

lemma own_folder_iff:
  "own_folder uid ob = Some True \<longleftrightarrow>
     bucket_id ob = ''photos'' \<and> (\<exists>u. uid = Some u \<and> array_first (foldername (name ob)) = Some (uuid_text u))"
  by (auto simp: own_folder_def in_photos_bucket_def sql_eq_def sql_and_def split: option.splits)

lemma in_photos_bucket_iff: "in_photos_bucket uid ob = Some True \<longleftrightarrow> bucket_id ob = ''photos''"
  by (simp add: in_photos_bucket_def sql_eq_def)

lemma objects_insert_iff: "insert_allowed objects_policies uid ob \<longleftrightarrow> own_folder uid ob = Some True"
  by (simp add: insert_allowed_def admits_check_def holds_def objects_policies_def)

lemma objects_delete_iff: "delete_allowed objects_policies uid ob \<longleftrightarrow> own_folder uid ob = Some True"
  by (simp add: delete_allowed_def admits_using_def holds_def objects_policies_def)

lemma objects_select_iff: "select_allowed objects_policies uid ob \<longleftrightarrow> bucket_id ob = ''photos''"
  by (auto simp: select_allowed_def admits_using_def holds_def objects_policies_def
      own_folder_iff in_photos_bucket_iff)

lemma array_first_butlast: "array_first (butlast xs) = Some s \<Longrightarrow> array_first xs = Some s"
  by (cases xs) (auto simp: array_first_def split: list.splits if_splits)

lemma first_folder_is_first_segment:
  "array_first (foldername n) = Some s \<Longrightarrow> array_first (split_on CHR ''/'' n) = Some s"
  unfolding foldername_def by (rule array_first_butlast)

section \<open>Paths\<close>

lemma split_on_not_Nil: "split_on c s \<noteq> []"
  by (induction s) (auto split: list.splits)

lemma split_on_no_sep: "c \<notin> set s \<Longrightarrow> split_on c s = [s]"
  by (induction s) auto

lemma split_on_first_sep: "c \<notin> set s \<Longrightarrow> split_on c (s @ c # rest) = s # split_on c rest"
  by (induction s) auto

lemma set_hexn: "set (hexn k n) \<subseteq> set ''0123456789abcdef''"
proof (induction k arbitrary: n)
  case 0
  then show ?case by simp
next
  case (Suc k)
  have "hexdigit (n mod 16) \<in> set ''0123456789abcdef''"
    unfolding hexdigit_def by (intro nth_mem) simp
  with Suc.IH [of "n div 16"] show ?case by simp
qed

lemma set_dashed:
  "set (take 8 h @ ''-'' @ take 4 (drop 8 h) @ ''-'' @ take 4 (drop 12 h) @ ''-''
         @ take 4 (drop 16 h) @ ''-'' @ drop 20 h) \<subseteq> insert CHR ''-'' (set h)"
  by (auto dest: in_set_takeD in_set_dropD)

lemma set_uuid_text: "set (uuid_text u) \<subseteq> set ''0123456789abcdef-''"
proof -
  have "set (uuid_text u) \<subseteq> insert CHR ''-'' (set (hexn 32 (unat u)))"
    unfolding uuid_text_def Let_def by (rule set_dashed)
  also have "\<dots> \<subseteq> insert CHR ''-'' (set ''0123456789abcdef'')"
    using set_hexn [of 32 "unat u"] by (rule insert_mono)
  also have "\<dots> = set ''0123456789abcdef-''" by auto
  finally show ?thesis .
qed

lemma no_slash_in_uuid_text: "CHR ''/'' \<notin> set (uuid_text u)"
  using set_uuid_text [of u] by auto

lemma first_folder_of_own_path:
  "array_first (foldername (uuid_text u @ ''/'' @ rest)) = Some (uuid_text u)"
proof -
  have "split_on CHR ''/'' (uuid_text u @ ''/'' @ rest) = uuid_text u # split_on CHR ''/'' rest"
    using split_on_first_sep [OF no_slash_in_uuid_text] by simp
  then show ?thesis
    by (simp add: foldername_def array_first_def split_on_not_Nil)
qed

lemma set_order_desc: "set (order_desc rs) = set rs"
  by (simp add: order_desc_def)

section \<open>Ownership of rows\<close>

text \<open>
  Claim C1. For two distinct users \<open>U1\<close> and \<open>U2\<close>, the policies refuse \<open>U1\<close> the
  read, the update and the delete of a profile row of \<open>U2\<close>, and the read, the insert
  and the delete of a photo row whose \<open>user_id\<close> is \<open>U2\<close>. Every expression of a policy
  of the two tables is true exactly when the caller's identity is the row's \<open>user_id\<close>.
  A request sent straight to the API gets the refusal: the select returns none of the
  rows of \<open>U2\<close>, the insert is an error and changes nothing, the delete leaves the row.
\<close>

theorem other_users_rows_denied:
  fixes pr pr' :: profile and ph :: photo
  assumes "U1 \<noteq> U2" and "user_id pr = U2" and "user_id ph = U2"
  shows "\<not> select_allowed profiles_policies (Some U1) pr
       \<and> \<not> update_allowed profiles_policies (Some U1) pr pr'
       \<and> \<not> delete_allowed profiles_policies (Some U1) pr
       \<and> \<not> select_allowed photos_policies (Some U1) ph
       \<and> \<not> insert_allowed photos_policies (Some U1) ph
       \<and> \<not> delete_allowed photos_policies (Some U1) ph
       \<and> (\<forall>p \<in> set profiles_policies. \<forall>f. using_expr p = Some f \<or> with_check p = Some f \<longrightarrow>
            (\<forall>uid r. f uid r = Some True \<longleftrightarrow> uid = Some (user_id r)))
       \<and> (\<forall>p \<in> set photos_policies. \<forall>f. using_expr p = Some f \<or> with_check p = Some f \<longrightarrow>
            (\<forall>uid r. f uid r = Some True \<longleftrightarrow> uid = Some (user_id r)))
       \<and> (\<forall>rows. photos_select fault (Some U1) d = Inr rows \<longrightarrow> ph \<notin> set rows)
       \<and> fst (photos_insert fault (Some U1) fresh now U2 fname fpath fsize d) \<noteq> None
       \<and> snd (photos_insert fault (Some U1) fresh now U2 fname fpath fsize d) = d
       \<and> (ph \<in> set (public_photos d) \<longrightarrow>
            ph \<in> set (public_photos (snd (photos_delete fault (Some U1) (row_id ph) d))))"
proof -
  have policies: "\<not> select_allowed profiles_policies (Some U1) pr
       \<and> \<not> update_allowed profiles_policies (Some U1) pr pr'
       \<and> \<not> delete_allowed profiles_policies (Some U1) pr
       \<and> \<not> select_allowed photos_policies (Some U1) ph
       \<and> \<not> insert_allowed photos_policies (Some U1) ph
       \<and> \<not> delete_allowed photos_policies (Some U1) ph"
    using assms
    by (auto simp: profiles_select_iff profiles_update_iff profiles_no_delete
        photos_select_iff photos_insert_iff photos_delete_iff)
  have e1: "\<forall>p \<in> set profiles_policies. \<forall>f. using_expr p = Some f \<or> with_check p = Some f \<longrightarrow>
            (\<forall>uid r. f uid r = Some True \<longleftrightarrow> uid = Some (user_id r))"
    by (auto simp: profiles_policies_def own_row_iff)
  have e2: "\<forall>p \<in> set photos_policies. \<forall>f. using_expr p = Some f \<or> with_check p = Some f \<longrightarrow>
            (\<forall>uid r. f uid r = Some True \<longleftrightarrow> uid = Some (user_id r))"
    by (auto simp: photos_policies_def own_row_iff)
  have sel: "\<forall>rows. photos_select fault (Some U1) d = Inr rows \<longrightarrow> ph \<notin> set rows"
    using assms
    by (auto simp: photos_select_def set_order_desc photos_select_iff split: option.splits)
  have ins: "fst (photos_insert fault (Some U1) fresh now U2 fname fpath fsize d) \<noteq> None
       \<and> snd (photos_insert fault (Some U1) fresh now U2 fname fpath fsize d) = d"
    using assms(1) by (cases fault) (simp_all add: photos_insert_def photos_insert_iff Let_def)
  have del: "ph \<in> set (public_photos d) \<longrightarrow>
            ph \<in> set (public_photos (snd (photos_delete fault (Some U1) (row_id ph) d)))"
    using assms by (cases fault) (simp_all add: photos_delete_def photos_delete_iff)
  from policies e1 e2 sel ins del show ?thesis by blast
qed

theorem other_users_rows_denied_witness:
  "(1::uuid) \<noteq> 2
   \<and> \<not> select_allowed profiles_policies (Some 1)
        \<lparr>row_id = 10, user_id = 2, created_at = 0, email = Some ''b@example.org''\<rparr>
   \<and> \<not> update_allowed profiles_policies (Some 1)
        \<lparr>row_id = 10, user_id = 2, created_at = 0, email = Some ''b@example.org''\<rparr>
        \<lparr>row_id = 10, user_id = 2, created_at = 0, email = Some ''a@example.org''\<rparr>
   \<and> \<not> delete_allowed profiles_policies (Some 1)
        \<lparr>row_id = 10, user_id = 2, created_at = 0, email = Some ''b@example.org''\<rparr>
   \<and> \<not> select_allowed photos_policies (Some 1)
        \<lparr>row_id = 20, user_id = 2, created_at = 5, file_name = ''cat.png'',
         file_path = ''x/1.png'', file_size = Some 3\<rparr>
   \<and> \<not> insert_allowed photos_policies (Some 1)
        \<lparr>row_id = 20, user_id = 2, created_at = 5, file_name = ''cat.png'',
         file_path = ''x/1.png'', file_size = Some 3\<rparr>
   \<and> \<not> delete_allowed photos_policies (Some 1)
        \<lparr>row_id = 20, user_id = 2, created_at = 5, file_name = ''cat.png'',
         file_path = ''x/1.png'', file_size = Some 3\<rparr>"
  using other_users_rows_denied [where ?U1.0 = 1 and ?U2.0 = 2
      and pr = "\<lparr>row_id = 10, user_id = 2, created_at = 0, email = Some ''b@example.org''\<rparr>"
      and ph = "\<lparr>row_id = 20, user_id = 2, created_at = 5, file_name = ''cat.png'',
        file_path = ''x/1.png'', file_size = Some 3\<rparr>"
      and pr' = "\<lparr>row_id = 10, user_id = 2, created_at = 0, email = Some ''a@example.org''\<rparr>"]
  by simp

section \<open>Ownership of stored files\<close>

text \<open>
  Claim C2. For two distinct users \<open>U1\<close> and \<open>U2\<close> and an object of the bucket
  \<^verbatim>\<open>photos\<close> whose key has the text of \<open>U2\<close> as its first path segment, the policies
  refuse \<open>U1\<close> the upload and the delete: the INSERT and DELETE policies hold exactly when
  the object is in the bucket and the text of the caller's identity is the first folder of
  the key. The upload through the API is an error and stores nothing, the remove leaves
  the object. Every object of the bucket may be read by every requester, with a session or
  without.
\<close>

theorem other_users_folder_denied_read_public:
  assumes "U1 \<noteq> U2" and "bucket_id ob = ''photos''"
    and "array_first (split_on CHR ''/'' (name ob)) = Some (uuid_text U2)"
  shows "\<not> insert_allowed objects_policies (Some U1) ob
       \<and> \<not> delete_allowed objects_policies (Some U1) ob
       \<and> (\<forall>p \<in> set objects_policies. for_cmd p = INSERT \<or> for_cmd p = DELETE \<longrightarrow>
             (\<forall>f uid x. using_expr p = Some f \<or> with_check p = Some f \<longrightarrow>
                (f uid x = Some True \<longleftrightarrow>
                   bucket_id x = ''photos'' \<and> uid \<noteq> None \<and>
                   map_option uuid_text uid = array_first (foldername (name x)))))
       \<and> fst (storage_upload fault (Some U1) (name ob) ctype sz d) \<noteq> None
       \<and> snd (storage_upload fault (Some U1) (name ob) ctype sz d) = d
       \<and> (ob \<in> set (storage_objects d) \<longrightarrow>
             ob \<in> set (storage_objects (snd (storage_remove fault (Some U1) [name ob] d))))
       \<and> (\<forall>uid x. bucket_id x = ''photos'' \<longrightarrow> select_allowed objects_policies uid x)"
proof -
  have no: "own_folder (Some U1) x \<noteq> Some True" if "name x = name ob" for x
    using assms that
    by (auto simp: own_folder_iff dest!: first_folder_is_first_segment uuid_text_inj)
  have pol: "\<not> insert_allowed objects_policies (Some U1) ob
       \<and> \<not> delete_allowed objects_policies (Some U1) ob"
    using no [of ob] by (simp add: objects_insert_iff objects_delete_iff)
  have ex: "\<forall>p \<in> set objects_policies. for_cmd p = INSERT \<or> for_cmd p = DELETE \<longrightarrow>
             (\<forall>f uid x. using_expr p = Some f \<or> with_check p = Some f \<longrightarrow>
                (f uid x = Some True \<longleftrightarrow>
                   bucket_id x = ''photos'' \<and> uid \<noteq> None \<and>
                   map_option uuid_text uid = array_first (foldername (name x))))"
    by (auto simp: objects_policies_def own_folder_iff)
  have up: "fst (storage_upload fault (Some U1) (name ob) ctype sz d) \<noteq> None
       \<and> snd (storage_upload fault (Some U1) (name ob) ctype sz d) = d"
    using no [of "\<lparr>bucket_id = ''photos'', name = name ob, mimetype = ctype, byte_size = sz\<rparr>"]
    by (cases fault) (simp_all add: storage_upload_def objects_insert_iff)
  have rm: "ob \<in> set (storage_objects d) \<longrightarrow>
             ob \<in> set (storage_objects (snd (storage_remove fault (Some U1) [name ob] d)))"
    using no [of ob] by (cases fault) (simp_all add: storage_remove_def objects_delete_iff)
  have rd: "\<forall>uid x. bucket_id x = ''photos'' \<longrightarrow> select_allowed objects_policies uid x"
    by (simp add: objects_select_iff)
  from pol ex up rm rd show ?thesis by blast
qed

theorem other_users_folder_denied_read_public_witness:
  "(1::uuid) \<noteq> 2
   \<and> array_first (split_on CHR ''/'' (uuid_text 2 @ ''/1700000000000.png'')) = Some (uuid_text 2)
   \<and> \<not> insert_allowed objects_policies (Some 1)
        \<lparr>bucket_id = ''photos'', name = uuid_text 2 @ ''/1700000000000.png'',
         mimetype = ''image/png'', byte_size = 3\<rparr>
   \<and> \<not> delete_allowed objects_policies (Some 1)
        \<lparr>bucket_id = ''photos'', name = uuid_text 2 @ ''/1700000000000.png'',
         mimetype = ''image/png'', byte_size = 3\<rparr>
   \<and> select_allowed objects_policies None
        \<lparr>bucket_id = ''photos'', name = uuid_text 2 @ ''/1700000000000.png'',
         mimetype = ''image/png'', byte_size = 3\<rparr>
   \<and> select_allowed objects_policies (Some 1)
        \<lparr>bucket_id = ''photos'', name = uuid_text 2 @ ''/1700000000000.png'',
         mimetype = ''image/png'', byte_size = 3\<rparr>"
proof -
  have seg: "array_first (split_on CHR ''/'' (uuid_text 2 @ ''/1700000000000.png'')) = Some (uuid_text 2)"
    using split_on_first_sep [OF no_slash_in_uuid_text, of 2 "''1700000000000.png''"]
    by (simp add: array_first_def)
  have ne: "(1::uuid) \<noteq> 2" by simp
  show ?thesis
    using seg ne other_users_folder_denied_read_public [where ?U1.0 = 1 and ?U2.0 = 2
      and ob = "\<lparr>bucket_id = ''photos'', name = uuid_text 2 @ ''/1700000000000.png'',
         mimetype = ''image/png'', byte_size = 3\<rparr>"]
    by simp
qed

section \<open>The path of a photo row\<close>

lemma photos_insert_own:
  assumes "u \<in> set (map user_uid (auth_users d))" and "fresh \<notin> set (map row_id (public_photos d))"
    and "sz < 2 ^ 63"
  shows "photos_insert None (Some u) fresh now u fname p sz d =
           (None, d\<lparr>public_photos := public_photos d @
              [\<lparr>row_id = fresh, user_id = u, created_at = now, file_name = fname,
                file_path = p, file_size = Some (int sz)\<rparr>]\<rparr>)"
  using assms by (simp add: photos_insert_def photos_insert_iff)

text \<open>
  Claim C4. There are a caller \<open>u\<close> and a \<open>file_path\<close> whose first path segment is not
  the text of \<open>u\<close> for which the insert of a photo row with \<open>user_id = u\<close> succeeds: it
  succeeds for every such path (the instance below has one) and every size the column
  can hold, since the insert policy reads \<open>user_id\<close> only and its verdict does not depend
  on \<open>file_path\<close>. The caller could not have uploaded an object under that path.
\<close>

theorem photo_row_path_unconstrained:
  assumes "array_first (split_on CHR ''/'' p) \<noteq> Some (uuid_text u)"
    and "u \<in> set (map user_uid (auth_users d))"
    and "fresh \<notin> set (map row_id (public_photos d))"
    and "sz < 2 ^ 63"
  shows "insert_allowed photos_policies (Some u)
           \<lparr>row_id = fresh, user_id = u, created_at = now, file_name = fname,
            file_path = p, file_size = Some (int sz)\<rparr>
       \<and> photos_insert None (Some u) fresh now u fname p sz d =
           (None, d\<lparr>public_photos := public_photos d @
              [\<lparr>row_id = fresh, user_id = u, created_at = now, file_name = fname,
                file_path = p, file_size = Some (int sz)\<rparr>]\<rparr>)
       \<and> insert_allowed photos_policies uid (r\<lparr>file_path := p\<rparr>) = insert_allowed photos_policies uid r
       \<and> \<not> insert_allowed objects_policies (Some u)
            \<lparr>bucket_id = ''photos'', name = p, mimetype = ctype, byte_size = sz\<rparr>"
proof -
  have "own_folder (Some u) \<lparr>bucket_id = ''photos'', name = p, mimetype = ctype, byte_size = sz\<rparr> \<noteq> Some True"
    using assms(1) by (auto simp: own_folder_iff dest!: first_folder_is_first_segment)
  then show ?thesis
    using photos_insert_own [OF assms(2,3,4)]
    by (simp add: photos_insert_iff objects_insert_iff)
qed

theorem photo_row_path_unconstrained_witness:
  "array_first (split_on CHR ''/'' ''somebody-else/cat.png'') \<noteq> Some (uuid_text 1)
   \<and> photos_insert None (Some 1) 20 5 1 ''cat.png'' ''somebody-else/cat.png'' 3
        \<lparr>auth_users = [\<lparr>user_uid = 1, user_email = Some ''a@example.org''\<rparr>],
         public_profiles = [], public_photos = [], storage_objects = []\<rparr> =
       (None,
        \<lparr>auth_users = [\<lparr>user_uid = 1, user_email = Some ''a@example.org''\<rparr>],
         public_profiles = [],
         public_photos = [\<lparr>row_id = 20, user_id = 1, created_at = 5, file_name = ''cat.png'',
            file_path = ''somebody-else/cat.png'', file_size = Some 3\<rparr>],
         storage_objects = []\<rparr>)"
proof -
  have no_s: "CHR ''s'' \<notin> set (uuid_text 1)"
    using set_uuid_text [of 1] by auto
  have seg: "array_first (split_on CHR ''/'' ''somebody-else/cat.png'') \<noteq> Some (uuid_text 1)"
  proof
    assume "array_first (split_on CHR ''/'' ''somebody-else/cat.png'') = Some (uuid_text 1)"
    then have "uuid_text 1 = ''somebody-else''" by (simp add: array_first_def)
    then have "CHR ''s'' \<in> set (uuid_text 1)" by simp
    with no_s show False by simp
  qed
  show ?thesis
    using seg photo_row_path_unconstrained [OF seg, where fresh = 20 and now = 5 and fname = "''cat.png''"
      and sz = 3 and d = "\<lparr>auth_users = [\<lparr>user_uid = 1, user_email = Some ''a@example.org''\<rparr>],
         public_profiles = [], public_photos = [], storage_objects = []\<rparr>"]
    by simp
qed

section \<open>No update of photos and stored files\<close>

text \<open>
  Claim C5. No caller, the owner included, may update a photo row or an object of the
  storage: neither table has a policy for UPDATE, so every update is refused.
\<close>

theorem no_update_of_photos_or_objects:
  "\<not> update_allowed photos_policies uid old new
   \<and> \<not> update_allowed objects_policies uid ob ob'
   \<and> filter (\<lambda>p. for_cmd p = UPDATE) photos_policies = []
   \<and> filter (\<lambda>p. for_cmd p = UPDATE) objects_policies = []"
  by (simp add: update_allowed_def admits_using_def photos_policies_def objects_policies_def)

theorem no_update_of_photos_or_objects_witness:
  "\<not> update_allowed photos_policies (Some 1)
       \<lparr>row_id = 20, user_id = 1, created_at = 5, file_name = ''cat.png'',
        file_path = ''x/1.png'', file_size = Some 3\<rparr>
       \<lparr>row_id = 20, user_id = 1, created_at = 5, file_name = ''dog.png'',
        file_path = ''x/1.png'', file_size = Some 3\<rparr>
   \<and> \<not> update_allowed objects_policies (Some 1)
       \<lparr>bucket_id = ''photos'', name = uuid_text 1 @ ''/1.png'', mimetype = ''image/png'', byte_size = 3\<rparr>
       \<lparr>bucket_id = ''photos'', name = uuid_text 1 @ ''/1.png'', mimetype = ''image/png'', byte_size = 4\<rparr>"
  using no_update_of_photos_or_objects [where uid = "Some 1"
      and old = "\<lparr>row_id = 20, user_id = 1, created_at = 5, file_name = ''cat.png'',
        file_path = ''x/1.png'', file_size = Some 3\<rparr>"
      and new = "\<lparr>row_id = 20, user_id = 1, created_at = 5, file_name = ''dog.png'',
        file_path = ''x/1.png'', file_size = Some 3\<rparr>"
      and ob = "\<lparr>bucket_id = ''photos'', name = uuid_text 1 @ ''/1.png'', mimetype = ''image/png'', byte_size = 3\<rparr>"
      and ob' = "\<lparr>bucket_id = ''photos'', name = uuid_text 1 @ ''/1.png'', mimetype = ''image/png'', byte_size = 4\<rparr>"]
  by simp

section \<open>The profile of a new user\<close>

lemma handle_new_user_Inr:
  assumes "handle_new_user fresh now u d = Inr d'"
  shows "d' = d\<lparr>public_profiles := public_profiles d @
            [\<lparr>row_id = fresh, user_id = user_uid u, created_at = now, email = user_email u\<rparr>]\<rparr>"
    and "user_uid u \<notin> set (map user_id (public_profiles d))"
  using assms by (auto simp: handle_new_user_def insert_profile_row_def split: if_splits)

lemma insert_auth_user_Inr:
  assumes "insert_auth_user fresh now u d = Inr d'"
  shows "d' = d\<lparr>auth_users := auth_users d @ [u],
              public_profiles := public_profiles d @
                [\<lparr>row_id = fresh, user_id = user_uid u, created_at = now, email = user_email u\<rparr>]\<rparr>"
    and "user_uid u \<notin> set (map user_id (public_profiles d))"
proof -
  from assms have h: "handle_new_user fresh now u (d\<lparr>auth_users := auth_users d @ [u]\<rparr>) = Inr d'"
    by (simp add: insert_auth_user_def split: if_splits)
  from handle_new_user_Inr(1) [OF h]
  show "d' = d\<lparr>auth_users := auth_users d @ [u],
              public_profiles := public_profiles d @
                [\<lparr>row_id = fresh, user_id = user_uid u, created_at = now, email = user_email u\<rparr>]\<rparr>"
    by simp
  from handle_new_user_Inr(2) [OF h]
  show "user_uid u \<notin> set (map user_id (public_profiles d))" by simp
qed

lemma filter_none: "k \<notin> set (map f xs) \<Longrightarrow> filter (\<lambda>x. f x = k) xs = []"
  by (induction xs) auto

text \<open>
  Claim C3. Creating a user (the insert into \<^verbatim>\<open>auth.users\<close> with its trigger) that
  returns has created, inside the same statement, exactly one profile row with the new
  user's identifier, and that row carries the user's email. The row is inserted by the
  trigger function without the policies: the same insert sent through the API by any
  caller other than the new user, a request with no session included, is refused by the
  insert policy. When the insert of the profile fails, the creation of the user fails
  with the same error and returns no database. On a database whose profiles all belong
  to its users, a user with a new identifier and a fresh row identifier is created.
\<close>

theorem new_user_gets_one_profile:
  "(insert_auth_user fresh now u d = Inr d' \<longrightarrow>
      filter (\<lambda>p. user_id p = user_uid u) (public_profiles d') =
        [\<lparr>row_id = fresh, user_id = user_uid u, created_at = now, email = user_email u\<rparr>]
      \<and> auth_users d' = auth_users d @ [u]
      \<and> handle_new_user fresh now u (d\<lparr>auth_users := auth_users d @ [u]\<rparr>) = Inr d'
      \<and> (\<forall>uid. uid \<noteq> Some (user_uid u) \<longrightarrow>
            insert_profile uid
              \<lparr>row_id = fresh, user_id = user_uid u, created_at = now, email = user_email u\<rparr>
              (d\<lparr>auth_users := auth_users d @ [u]\<rparr>) = Inl (RowLevelSecurity ''profiles'')))
   \<and> (user_uid u \<notin> set (map user_uid (auth_users d))
        \<and> handle_new_user fresh now u (d\<lparr>auth_users := auth_users d @ [u]\<rparr>) = Inl e \<longrightarrow>
          insert_auth_user fresh now u d = Inl e)
   \<and> (user_uid u \<notin> set (map user_uid (auth_users d))
        \<and> fresh \<notin> set (map row_id (public_profiles d))
        \<and> set (map user_id (public_profiles d)) \<subseteq> set (map user_uid (auth_users d)) \<longrightarrow>
          (\<exists>d'. insert_auth_user fresh now u d = Inr d'))"
proof (intro conjI impI)
  assume ok: "insert_auth_user fresh now u d = Inr d'"
  note d' = insert_auth_user_Inr(1) [OF ok] and new = insert_auth_user_Inr(2) [OF ok]
  show "filter (\<lambda>p. user_id p = user_uid u) (public_profiles d') =
        [\<lparr>row_id = fresh, user_id = user_uid u, created_at = now, email = user_email u\<rparr>]"
    using filter_none [OF new] by (simp add: d')
  show "auth_users d' = auth_users d @ [u]" by (simp add: d')
  show "handle_new_user fresh now u (d\<lparr>auth_users := auth_users d @ [u]\<rparr>) = Inr d'"
    using ok by (simp add: insert_auth_user_def split: if_splits)
  show "\<forall>uid. uid \<noteq> Some (user_uid u) \<longrightarrow>
            insert_profile uid
              \<lparr>row_id = fresh, user_id = user_uid u, created_at = now, email = user_email u\<rparr>
              (d\<lparr>auth_users := auth_users d @ [u]\<rparr>) = Inl (RowLevelSecurity ''profiles'')"
    by (simp add: insert_profile_def profiles_insert_iff)
next
  assume "user_uid u \<notin> set (map user_uid (auth_users d))
        \<and> handle_new_user fresh now u (d\<lparr>auth_users := auth_users d @ [u]\<rparr>) = Inl e"
  then show "insert_auth_user fresh now u d = Inl e"
    by (simp add: insert_auth_user_def)
next
  assume a: "user_uid u \<notin> set (map user_uid (auth_users d))
        \<and> fresh \<notin> set (map row_id (public_profiles d))
        \<and> set (map user_id (public_profiles d)) \<subseteq> set (map user_uid (auth_users d))"
  then have "user_uid u \<notin> set (map user_id (public_profiles d))" by blast
  with a show "\<exists>d'. insert_auth_user fresh now u d = Inr d'"
    by (simp add: insert_auth_user_def handle_new_user_def insert_profile_row_def)
qed

theorem new_user_gets_one_profile_witness:
  "insert_auth_user 11 7 \<lparr>user_uid = 2, user_email = Some ''b@example.org''\<rparr>
      \<lparr>auth_users = [\<lparr>user_uid = 1, user_email = Some ''a@example.org''\<rparr>],
       public_profiles = [\<lparr>row_id = 10, user_id = 1, created_at = 0, email = Some ''a@example.org''\<rparr>],
       public_photos = [], storage_objects = []\<rparr> =
     Inr \<lparr>auth_users = [\<lparr>user_uid = 1, user_email = Some ''a@example.org''\<rparr>,
                        \<lparr>user_uid = 2, user_email = Some ''b@example.org''\<rparr>],
          public_profiles = [\<lparr>row_id = 10, user_id = 1, created_at = 0, email = Some ''a@example.org''\<rparr>,
                             \<lparr>row_id = 11, user_id = 2, created_at = 7, email = Some ''b@example.org''\<rparr>],
          public_photos = [], storage_objects = []\<rparr>
   \<and> filter (\<lambda>p. user_id p = 2)
        [\<lparr>row_id = 10, user_id = 1, created_at = 0, email = Some ''a@example.org''\<rparr>,
         \<lparr>row_id = 11, user_id = 2, created_at = 7, email = Some ''b@example.org''\<rparr>] =
       [\<lparr>row_id = 11, user_id = 2, created_at = 7, email = Some ''b@example.org''\<rparr>]
   \<and> insert_auth_user 10 7 \<lparr>user_uid = 2, user_email = Some ''b@example.org''\<rparr>
      \<lparr>auth_users = [\<lparr>user_uid = 1, user_email = Some ''a@example.org''\<rparr>],
       public_profiles = [\<lparr>row_id = 10, user_id = 1, created_at = 0, email = Some ''a@example.org''\<rparr>],
       public_photos = [], storage_objects = []\<rparr> = Inl (UniqueViolation ''profiles_pkey'')"
  using new_user_gets_one_profile [where fresh = 11 and now = 7
      and u = "\<lparr>user_uid = 2, user_email = Some ''b@example.org''\<rparr>"
      and d = "\<lparr>auth_users = [\<lparr>user_uid = 1, user_email = Some ''a@example.org''\<rparr>],
       public_profiles = [\<lparr>row_id = 10, user_id = 1, created_at = 0, email = Some ''a@example.org''\<rparr>],
       public_photos = [], storage_objects = []\<rparr>"]
    new_user_gets_one_profile [where fresh = 10 and now = 7 and e = "UniqueViolation ''profiles_pkey''"
      and u = "\<lparr>user_uid = 2, user_email = Some ''b@example.org''\<rparr>"
      and d = "\<lparr>auth_users = [\<lparr>user_uid = 1, user_email = Some ''a@example.org''\<rparr>],
       public_profiles = [\<lparr>row_id = 10, user_id = 1, created_at = 0, email = Some ''a@example.org''\<rparr>],
       public_photos = [], storage_objects = []\<rparr>"]
  by (simp add: insert_auth_user_def handle_new_user_def insert_profile_row_def)

section \<open>The steps of the client\<close>

lemma notify_simps:
  "sent (notify t w) = sent w" "db (notify t w) = db w" "session (notify t w) = session w"
  "photos (ui (notify t w)) = photos (ui w)" "userId (ui (notify t w)) = userId (ui w)"
  "uploading (ui (notify t w)) = uploading (ui w)" "toasts (ui (notify t w)) = toasts (ui w) @ [t]"
  by (simp_all add: notify_def)

lemma send_simps:
  "sent (send r w) = sent w @ [r]" "db (send r w) = db w" "session (send r w) = session w"
  "ui (send r w) = ui w"
  by (simp_all add: send_def)

lemma setPhotos_simps:
  "sent (setPhotos ps w) = sent w" "db (setPhotos ps w) = db w" "session (setPhotos ps w) = session w"
  "photos (ui (setPhotos ps w)) = ps" "userId (ui (setPhotos ps w)) = userId (ui w)"
  "uploading (ui (setPhotos ps w)) = uploading (ui w)" "toasts (ui (setPhotos ps w)) = toasts (ui w)"
  by (simp_all add: setPhotos_def)

lemma setUploading_simps:
  "sent (setUploading b w) = sent w" "db (setUploading b w) = db w"
  "session (setUploading b w) = session w"
  "photos (ui (setUploading b w)) = photos (ui w)" "userId (ui (setUploading b w)) = userId (ui w)"
  "uploading (ui (setUploading b w)) = b" "toasts (ui (setUploading b w)) = toasts (ui w)"
  by (simp_all add: setUploading_def)

lemmas step_simps = notify_simps send_simps setPhotos_simps setUploading_simps

lemma storage_remove_error:
  "fst (storage_remove fault uid paths d) = Some e \<Longrightarrow> fault = Some e \<and> snd (storage_remove fault uid paths d) = d"
  by (cases fault) (simp_all add: storage_remove_def)

lemma storage_remove_ok:
  "fst (storage_remove fault uid paths d) = None \<Longrightarrow> fault = None"
  by (cases fault) (simp_all add: storage_remove_def)

lemma deletePhoto_storage_error:
  assumes "fst (storage_remove (remove_fault env) (session w) [file_path photo] (db w)) = Some e"
  shows "deletePhoto env photo w = notify (ErrorMessage e) (send (StorageRemove [file_path photo]) w)"
proof -
  from storage_remove_error [OF assms] have f: "remove_fault env = Some e" by simp
  show ?thesis by (simp add: deletePhoto_def storage_remove_def f send_def)
qed

lemma deletePhoto_db_error:
  assumes "remove_fault env = None" and "delete_fault env = Some e"
  shows "deletePhoto env photo w =
     notify (ErrorMessage e)
       (send (PhotosDelete (row_id photo))
          ((send (StorageRemove [file_path photo]) w)
             \<lparr>db := snd (storage_remove None (session w) [file_path photo] (db w))\<rparr>))"
  using assms by (simp add: deletePhoto_def storage_remove_def photos_delete_def send_def notify_def)

lemma deletePhoto_ok:
  assumes "remove_fault env = None" and "delete_fault env = None"
  shows "deletePhoto env photo w =
     setPhotos (filter (\<lambda>p. row_id p \<noteq> row_id photo) (photos (ui w)))
       (notify PhotoDeleted
         ((send (PhotosDelete (row_id photo)) (send (StorageRemove [file_path photo]) w))
             \<lparr>db := snd (photos_delete None (session w) (row_id photo)
                       (snd (storage_remove None (session w) [file_path photo] (db w))))\<rparr>))"
  using assms by (simp add: deletePhoto_def storage_remove_def photos_delete_def send_def notify_def setPhotos_def)

lemma removed_object_gone:
  assumes "array_first (foldername p) = Some (uuid_text u)"
  shows "\<forall>x \<in> set (storage_objects (snd (storage_remove None (Some u) [p] d))).
           \<not> (bucket_id x = ''photos'' \<and> name x = p)"
  using assms by (auto simp: storage_remove_def objects_delete_iff own_folder_iff)

lemma storage_remove_other_tables:
  "public_photos (snd (storage_remove fault uid paths d)) = public_photos d"
  by (cases fault) (simp_all add: storage_remove_def)

lemma photos_delete_rows:
  "public_photos (snd (photos_delete None (Some u) pid d)) =
     filter (\<lambda>r. \<not> (row_id r = pid \<and> user_id r = u)) (public_photos d)"
  by (auto simp: photos_delete_def photos_delete_iff intro: filter_cong)

lemma photos_delete_objects:
  "storage_objects (snd (photos_delete f uid pid d)) = storage_objects d"
  by (cases f) (simp_all add: photos_delete_def)

lemma storage_remove_objects:
  "storage_objects (snd (storage_remove None (Some u) [p] d)) =
     filter (\<lambda>x. \<not> (bucket_id x = ''photos'' \<and> name x = p
                     \<and> array_first (foldername (name x)) = Some (uuid_text u)))
       (storage_objects d)"
  by (auto simp: storage_remove_def objects_delete_iff own_folder_iff intro: filter_cong)

lemma calm_faults:
  "upload_fault calm = None" "insert_fault calm = None" "select_fault calm = None"
  "remove_fault calm = None" "delete_fault calm = None"
  by (simp_all add: calm_def)

lemma alice_world_simps:
  "session alice_world = Some alice" "userId (ui alice_world) = Some alice"
  "sent alice_world = []" "photos (ui alice_world) = [cat_row]" "toasts (ui alice_world) = []"
  "auth_users (db alice_world) = [\<lparr>user_uid = alice, user_email = Some ''a@example.org''\<rparr>]"
  "public_photos (db alice_world) = [cat_row]" "storage_objects (db alice_world) = [cat_object]"
  by (simp_all add: alice_world_def)

lemma cat_folder: "array_first (foldername (file_path cat_row)) = Some (uuid_text alice)"
  using first_folder_of_own_path [of alice "''5.png''"] by (simp add: cat_row_def)

section \<open>Deleting a photo\<close>

text \<open>
  Claim C7. Every call of \<open>deletePhoto\<close> first sends the removal of the stored file and
  sends the delete of the metadata row after it, when the removal returned no error. When
  both calls succeed the photo leaves the displayed list, the photos table keeps every
  row but those with the photo's identifier that belong to the caller, of which none
  remains, and the storage keeps every object but the one under the photo's path in the
  caller's folder. When the removal went through and took the object (the
  caller owns the folder of the path) and the delete of the row then fails, the row is
  still in the table while no object of the bucket has its path; the client sent exactly
  the two requests, nothing after them, keeps the photo in its list and shows the error.
\<close>

theorem delete_order_and_dangling_metadata:
  "(\<exists>rest. sent (deletePhoto env photo w) = sent w @ StorageRemove [file_path photo] # rest
        \<and> rest = (if fst (storage_remove (remove_fault env) (session w) [file_path photo] (db w)) = None
                   then [PhotosDelete (row_id photo)] else []))
   \<and> (remove_fault env = None \<and> delete_fault env = None \<longrightarrow>
        db (deletePhoto env photo w) =
          snd (photos_delete None (session w) (row_id photo)
                 (snd (storage_remove None (session w) [file_path photo] (db w))))
        \<and> photos (ui (deletePhoto env photo w)) =
            filter (\<lambda>p. row_id p \<noteq> row_id photo) (photos (ui w))
        \<and> toasts (ui (deletePhoto env photo w)) = toasts (ui w) @ [PhotoDeleted])
   \<and> (remove_fault env = None \<and> delete_fault env = Some e \<and> session w = Some u
        \<and> array_first (foldername (file_path photo)) = Some (uuid_text u) \<longrightarrow>
        (\<forall>x \<in> set (storage_objects (db (deletePhoto env photo w))).
            \<not> (bucket_id x = ''photos'' \<and> name x = file_path photo))
        \<and> public_photos (db (deletePhoto env photo w)) = public_photos (db w)
        \<and> sent (deletePhoto env photo w) =
            sent w @ [StorageRemove [file_path photo], PhotosDelete (row_id photo)]
        \<and> photos (ui (deletePhoto env photo w)) = photos (ui w)
        \<and> toasts (ui (deletePhoto env photo w)) = toasts (ui w) @ [ErrorMessage e])
   \<and> (remove_fault env = None \<and> delete_fault env = None \<and> session w = Some v \<longrightarrow>
        public_photos (db (deletePhoto env photo w)) =
          filter (\<lambda>r. \<not> (row_id r = row_id photo \<and> user_id r = v)) (public_photos (db w))
        \<and> (\<forall>r \<in> set (public_photos (db (deletePhoto env photo w))).
              \<not> (row_id r = row_id photo \<and> user_id r = v))
        \<and> storage_objects (db (deletePhoto env photo w)) =
            filter (\<lambda>x. \<not> (bucket_id x = ''photos'' \<and> name x = file_path photo
                            \<and> array_first (foldername (name x)) = Some (uuid_text v)))
              (storage_objects (db w))
        \<and> sent (deletePhoto env photo w) =
            sent w @ [StorageRemove [file_path photo], PhotosDelete (row_id photo)])"
proof (intro conjI impI)
  show "\<exists>rest. sent (deletePhoto env photo w) = sent w @ StorageRemove [file_path photo] # rest
        \<and> rest = (if fst (storage_remove (remove_fault env) (session w) [file_path photo] (db w)) = None
                   then [PhotosDelete (row_id photo)] else [])"
  proof (cases "remove_fault env")
    case None
    then show ?thesis
      by (cases "delete_fault env")
        (simp_all add: deletePhoto_ok deletePhoto_db_error step_simps storage_remove_def)
  next
    case (Some e')
    then have "fst (storage_remove (remove_fault env) (session w) [file_path photo] (db w)) = Some e'"
      by (simp add: storage_remove_def)
    then show ?thesis
      by (simp add: deletePhoto_storage_error step_simps)
  qed
next
  assume a: "remove_fault env = None \<and> delete_fault env = None"
  then have eq: "deletePhoto env photo w =
     setPhotos (filter (\<lambda>p. row_id p \<noteq> row_id photo) (photos (ui w)))
       (notify PhotoDeleted
         ((send (PhotosDelete (row_id photo)) (send (StorageRemove [file_path photo]) w))
             \<lparr>db := snd (photos_delete None (session w) (row_id photo)
                       (snd (storage_remove None (session w) [file_path photo] (db w))))\<rparr>))"
    by (simp add: deletePhoto_ok)
  show "db (deletePhoto env photo w) =
          snd (photos_delete None (session w) (row_id photo)
                 (snd (storage_remove None (session w) [file_path photo] (db w))))"
    by (simp add: eq step_simps)
  show "photos (ui (deletePhoto env photo w)) =
            filter (\<lambda>p. row_id p \<noteq> row_id photo) (photos (ui w))"
    by (simp add: eq step_simps)
  show "toasts (ui (deletePhoto env photo w)) = toasts (ui w) @ [PhotoDeleted]"
    by (simp add: eq step_simps)
next
  assume a: "remove_fault env = None \<and> delete_fault env = Some e \<and> session w = Some u
        \<and> array_first (foldername (file_path photo)) = Some (uuid_text u)"
  then have eq: "deletePhoto env photo w =
     notify (ErrorMessage e)
       (send (PhotosDelete (row_id photo))
          ((send (StorageRemove [file_path photo]) w)
             \<lparr>db := snd (storage_remove None (Some u) [file_path photo] (db w))\<rparr>))"
    using deletePhoto_db_error [of env e photo w] by simp
  from a have own: "array_first (foldername (file_path photo)) = Some (uuid_text u)" by simp
  show "\<forall>x \<in> set (storage_objects (db (deletePhoto env photo w))).
            \<not> (bucket_id x = ''photos'' \<and> name x = file_path photo)"
    using removed_object_gone [OF own, of "db w"] by (simp add: eq step_simps)
  show "public_photos (db (deletePhoto env photo w)) = public_photos (db w)"
    by (simp add: eq step_simps storage_remove_other_tables)
  show "sent (deletePhoto env photo w) =
            sent w @ [StorageRemove [file_path photo], PhotosDelete (row_id photo)]"
    by (simp add: eq step_simps)
  show "photos (ui (deletePhoto env photo w)) = photos (ui w)"
    by (simp add: eq step_simps)
  show "toasts (ui (deletePhoto env photo w)) = toasts (ui w) @ [ErrorMessage e]"
    by (simp add: eq step_simps)
next
  assume a: "remove_fault env = None \<and> delete_fault env = None \<and> session w = Some v"
  then have eq: "deletePhoto env photo w =
     setPhotos (filter (\<lambda>p. row_id p \<noteq> row_id photo) (photos (ui w)))
       (notify PhotoDeleted
         ((send (PhotosDelete (row_id photo)) (send (StorageRemove [file_path photo]) w))
             \<lparr>db := snd (photos_delete None (Some v) (row_id photo)
                       (snd (storage_remove None (Some v) [file_path photo] (db w))))\<rparr>))"
    using deletePhoto_ok [of env photo w] by simp
  show rows: "public_photos (db (deletePhoto env photo w)) =
          filter (\<lambda>r. \<not> (row_id r = row_id photo \<and> user_id r = v)) (public_photos (db w))"
    by (simp add: eq step_simps photos_delete_rows storage_remove_other_tables)
  show "\<forall>r \<in> set (public_photos (db (deletePhoto env photo w))).
              \<not> (row_id r = row_id photo \<and> user_id r = v)"
    unfolding rows by simp
  show "storage_objects (db (deletePhoto env photo w)) =
            filter (\<lambda>x. \<not> (bucket_id x = ''photos'' \<and> name x = file_path photo
                            \<and> array_first (foldername (name x)) = Some (uuid_text v)))
              (storage_objects (db w))"
    by (simp add: eq step_simps photos_delete_objects storage_remove_objects)
  show "sent (deletePhoto env photo w) =
            sent w @ [StorageRemove [file_path photo], PhotosDelete (row_id photo)]"
    by (simp add: eq step_simps)
qed

theorem delete_order_and_dangling_metadata_witness:
  "remove_fault (calm\<lparr>delete_fault := Some (Transport ''offline'')\<rparr>) = None
   \<and> delete_fault (calm\<lparr>delete_fault := Some (Transport ''offline'')\<rparr>) = Some (Transport ''offline'')
   \<and> session alice_world = Some alice
   \<and> array_first (foldername (file_path cat_row)) = Some (uuid_text alice)
   \<and> public_photos (db (deletePhoto (calm\<lparr>delete_fault := Some (Transport ''offline'')\<rparr>) cat_row alice_world)) =
        [cat_row]
   \<and> storage_objects (db (deletePhoto (calm\<lparr>delete_fault := Some (Transport ''offline'')\<rparr>) cat_row alice_world)) = []
   \<and> sent (deletePhoto (calm\<lparr>delete_fault := Some (Transport ''offline'')\<rparr>) cat_row alice_world) =
        [StorageRemove [file_path cat_row], PhotosDelete (row_id cat_row)]
   \<and> photos (ui (deletePhoto (calm\<lparr>delete_fault := Some (Transport ''offline'')\<rparr>) cat_row alice_world)) =
        [cat_row]
   \<and> toasts (ui (deletePhoto (calm\<lparr>delete_fault := Some (Transport ''offline'')\<rparr>) cat_row alice_world)) =
        [ErrorMessage (Transport ''offline'')]
   \<and> public_photos (db (deletePhoto calm cat_row alice_world)) = []
   \<and> storage_objects (db (deletePhoto calm cat_row alice_world)) = []
   \<and> photos (ui (deletePhoto calm cat_row alice_world)) = []
   \<and> sent (deletePhoto calm cat_row alice_world) =
        [StorageRemove [file_path cat_row], PhotosDelete (row_id cat_row)]"
proof -
  let ?env = "calm\<lparr>delete_fault := Some (Transport ''offline'')\<rparr>"
  let ?w = "deletePhoto ?env cat_row alice_world"
  have f: "remove_fault ?env = None" "delete_fault ?env = Some (Transport ''offline'')"
    by (simp_all add: calm_def)
  have s: "session alice_world = Some alice" by (simp add: alice_world_def)
  have own: "own_folder (Some alice) cat_object = Some True"
    using cat_folder by (simp add: own_folder_iff cat_object_def cat_row_def)
  have gone: "storage_objects (snd (storage_remove None (Some alice) [file_path cat_row] (db alice_world))) = []"
    using own by (simp add: storage_remove_def alice_world_def objects_delete_iff cat_object_def cat_row_def)
  have objs: "storage_objects (db ?w) = []"
    using gone by (simp add: deletePhoto_db_error [OF f] step_simps s)
  from delete_order_and_dangling_metadata [where env = ?env and photo = cat_row and w = alice_world
        and e = "Transport ''offline''" and u = alice] f s cat_folder
  have rows: "public_photos (db ?w) = public_photos (db alice_world)"
    and reqs: "sent ?w = sent alice_world @ [StorageRemove [file_path cat_row], PhotosDelete (row_id cat_row)]"
    and shown: "photos (ui ?w) = photos (ui alice_world)"
    and told: "toasts (ui ?w) = toasts (ui alice_world) @ [ErrorMessage (Transport ''offline'')]"
    by blast+
  have w: "public_photos (db alice_world) = [cat_row]" "sent alice_world = []"
    "photos (ui alice_world) = [cat_row]" "toasts (ui alice_world) = []"
    by (simp_all add: alice_world_def)
  from delete_order_and_dangling_metadata [where env = calm and photo = cat_row
        and w = alice_world and v = alice] calm_faults s
  have rows': "public_photos (db (deletePhoto calm cat_row alice_world)) =
      filter (\<lambda>r. \<not> (row_id r = row_id cat_row \<and> user_id r = alice)) (public_photos (db alice_world))"
    and objs': "storage_objects (db (deletePhoto calm cat_row alice_world)) =
      filter (\<lambda>x. \<not> (bucket_id x = ''photos'' \<and> name x = file_path cat_row
                            \<and> array_first (foldername (name x)) = Some (uuid_text alice)))
        (storage_objects (db alice_world))"
    and shown': "photos (ui (deletePhoto calm cat_row alice_world)) =
      filter (\<lambda>p. row_id p \<noteq> row_id cat_row) (photos (ui alice_world))"
    and reqs': "sent (deletePhoto calm cat_row alice_world) =
      sent alice_world @ [StorageRemove [file_path cat_row], PhotosDelete (row_id cat_row)]"
    by blast+
  have r0: "public_photos (db (deletePhoto calm cat_row alice_world)) = []"
    unfolding rows' by (simp add: alice_world_simps cat_row_def)
  have o0: "storage_objects (db (deletePhoto calm cat_row alice_world)) = []"
    unfolding objs' using cat_folder by (simp add: alice_world_simps cat_object_def cat_row_def)
  have p0: "photos (ui (deletePhoto calm cat_row alice_world)) = []"
    unfolding shown' by (simp add: alice_world_simps)
  have q0: "sent (deletePhoto calm cat_row alice_world) =
      [StorageRemove [file_path cat_row], PhotosDelete (row_id cat_row)]"
    unfolding reqs' by (simp add: alice_world_simps)
  from f s cat_folder objs rows reqs shown told r0 o0 p0 q0 show ?thesis
    by (simp only: w append_Nil simp_thms)
qed

text \<open>
  Claim C10. When the removal of the stored file fails, \<open>deletePhoto\<close> sends nothing
  else: the delete of the metadata row is not attempted, the database and the displayed
  list of photos are as before, and the error is shown as a notification.
\<close>

theorem failed_removal_keeps_metadata:
  assumes "fst (storage_remove (remove_fault env) (session w) [file_path photo] (db w)) = Some e"
  shows "sent (deletePhoto env photo w) = sent w @ [StorageRemove [file_path photo]]
       \<and> db (deletePhoto env photo w) = db w
       \<and> photos (ui (deletePhoto env photo w)) = photos (ui w)
       \<and> toasts (ui (deletePhoto env photo w)) = toasts (ui w) @ [ErrorMessage e]"
  by (simp add: deletePhoto_storage_error [OF assms] step_simps)

theorem failed_removal_keeps_metadata_witness:
  "fst (storage_remove (remove_fault (calm\<lparr>remove_fault := Some (Transport ''offline'')\<rparr>))
          (session alice_world) [file_path cat_row] (db alice_world)) = Some (Transport ''offline'')
   \<and> sent (deletePhoto (calm\<lparr>remove_fault := Some (Transport ''offline'')\<rparr>) cat_row alice_world) =
        [StorageRemove [uuid_text alice @ ''/5.png'']]
   \<and> public_photos (db (deletePhoto (calm\<lparr>remove_fault := Some (Transport ''offline'')\<rparr>) cat_row alice_world)) =
        [cat_row]
   \<and> storage_objects (db (deletePhoto (calm\<lparr>remove_fault := Some (Transport ''offline'')\<rparr>) cat_row alice_world)) =
        [cat_object]
   \<and> photos (ui (deletePhoto (calm\<lparr>remove_fault := Some (Transport ''offline'')\<rparr>) cat_row alice_world)) =
        [cat_row]
   \<and> toasts (ui (deletePhoto (calm\<lparr>remove_fault := Some (Transport ''offline'')\<rparr>) cat_row alice_world)) =
        [ErrorMessage (Transport ''offline'')]"
proof -
  have h: "fst (storage_remove (remove_fault (calm\<lparr>remove_fault := Some (Transport ''offline'')\<rparr>))
          (session alice_world) [file_path cat_row] (db alice_world)) = Some (Transport ''offline'')"
    by (simp add: storage_remove_def)
  show ?thesis
    using h failed_removal_keeps_metadata [OF h]
    by (simp add: alice_world_def cat_row_def)
qed

section \<open>Listing the photos\<close>

lemma mset_order_desc: "mset (order_desc rs) = mset rs"
  by (simp add: order_desc_def)

lemma sorted_order_desc: "sorted_wrt (\<lambda>a b. created_at b \<le> created_at a) (order_desc rs)"
proof -
  have "sorted (map created_at (sort_key created_at rs))" by (rule sorted_sort_key)
  then have "sorted_wrt (\<lambda>a b. created_at a \<le> created_at b) (sort_key created_at rs)"
    by (simp add: sorted_wrt_map)
  then show ?thesis by (simp add: order_desc_def sorted_wrt_rev)
qed

lemma fetchPhotos_ok:
  assumes "userId (ui w) = Some v" and "select_fault env = None"
  shows "fetchPhotos env w =
     setPhotos (order_desc (filter (select_allowed photos_policies (session w)) (public_photos (db w))))
       (send PhotosSelect w)"
  using assms by (simp add: fetchPhotos_def photos_select_def)

lemma fetchPhotos_error:
  assumes "userId (ui w) = Some v" and "select_fault env = Some e"
  shows "fetchPhotos env w = notify ErrorLoadingPhotos (send PhotosSelect w)"
  using assms by (simp add: fetchPhotos_def photos_select_def)

lemma fetchPhotos_sent: "userId (ui w) = Some v \<Longrightarrow> sent (fetchPhotos env w) = sent w @ [PhotosSelect]"
  by (cases "select_fault env") (simp_all add: fetchPhotos_ok fetchPhotos_error step_simps)


text \<open>
  Claim C9. For a signed-in user whose listing request succeeds, \<open>fetchPhotos\<close> puts in
  the gallery exactly the rows of the photos table whose \<open>user_id\<close> is that user (each as
  often as the table has it), ordered by \<open>created_at\<close> descending, the most recent first.
  This holds for every table, the user's set of rows being empty or not.
\<close>

theorem listing_is_own_rows_newest_first:
  assumes "userId (ui w) = Some u" and "session w = Some u" and "select_fault env = None"
  shows "mset (photos (ui (fetchPhotos env w))) =
           mset (filter (\<lambda>r. user_id r = u) (public_photos (db w)))
       \<and> sorted_wrt (\<lambda>a b. created_at b \<le> created_at a) (photos (ui (fetchPhotos env w)))
       \<and> sent (fetchPhotos env w) = sent w @ [PhotosSelect]
       \<and> db (fetchPhotos env w) = db w"
proof -
  have "select_allowed photos_policies (Some u) = (\<lambda>r. user_id r = u)"
    by (auto simp: photos_select_iff)
  then have "fetchPhotos env w =
     setPhotos (order_desc (filter (\<lambda>r. user_id r = u) (public_photos (db w)))) (send PhotosSelect w)"
    using fetchPhotos_ok [OF assms(1,3)] assms(2) by simp
  then show ?thesis
    by (simp add: step_simps mset_order_desc sorted_order_desc)
qed

theorem listing_is_own_rows_newest_first_witness:
  "userId (ui (alice_world\<lparr>db := (db alice_world)\<lparr>public_photos := album\<rparr>\<rparr>)) = Some alice
   \<and> session (alice_world\<lparr>db := (db alice_world)\<lparr>public_photos := album\<rparr>\<rparr>) = Some alice
   \<and> select_fault calm = None
   \<and> photos (ui (fetchPhotos calm (alice_world\<lparr>db := (db alice_world)\<lparr>public_photos := album\<rparr>\<rparr>))) =
       [album ! 2, album ! 3, album ! 0]
   \<and> mset [album ! 2, album ! 3, album ! 0] = mset (filter (\<lambda>r. user_id r = alice) album)
   \<and> sorted_wrt (\<lambda>a b. created_at b \<le> created_at a) [album ! 2, album ! 3, album ! 0]"
proof -
  let ?w = "alice_world\<lparr>db := (db alice_world)\<lparr>public_photos := album\<rparr>\<rparr>"
  have h: "userId (ui ?w) = Some alice" "session ?w = Some alice" "select_fault calm = None"
    by (simp_all add: alice_world_def calm_def)
  have a: "photos (ui (fetchPhotos calm ?w)) =
      order_desc (filter (select_allowed photos_policies (Some alice)) album)"
    unfolding fetchPhotos_ok [OF h(1,3)] by (simp add: step_simps alice_world_def)
  have b: "order_desc (filter (select_allowed photos_policies (Some alice)) album) =
      [album ! 2, album ! 3, album ! 0]"
    by (simp add: photos_select_iff order_desc_def album_def alice_def bob_def)
  have run: "photos (ui (fetchPhotos calm ?w)) = [album ! 2, album ! 3, album ! 0]"
    by (simp only: a b)
  from listing_is_own_rows_newest_first [OF h] h run show ?thesis by simp
qed

section \<open>Uploading a file\<close>



lemma fileExt_no_dot: "CHR ''.'' \<notin> set (fileName file) \<Longrightarrow> fileExt file = Some (fileName file)"
  by (simp add: fileExt_def pop_def split_on_no_sep)






lemma uploadFile_no_session: "userId (ui w) = None \<Longrightarrow> uploadFile env file w = w"
  by (simp add: uploadFile_def)

lemma uploadFile_not_image:
  "userId (ui w) = Some uid \<Longrightarrow> \<not> prefix ''image/'' (fileType file) \<Longrightarrow>
     uploadFile env file w = notify OnlyImagesAllowed w"
  by (simp add: uploadFile_def)

lemma uploadFile_too_large:
  "userId (ui w) = Some uid \<Longrightarrow> prefix ''image/'' (fileType file) \<Longrightarrow>
     10 * 1024 * 1024 < fileSize file \<Longrightarrow> uploadFile env file w = notify FileTooLarge w"
  by (simp add: uploadFile_def)

lemma uploadFile_accepted:
  assumes "userId (ui w) = Some uid" and "prefix ''image/'' (fileType file)"
    and "fileSize file \<le> 10 * 1024 * 1024"
  shows "uploadFile env file w =
     (case fst (upload_call env uid file w) of
        Some e \<Rightarrow>
          setUploading False (notify (ErrorMessage e)
            ((send (StorageUpload (filePath env uid file) file) (setUploading True w))
               \<lparr>db := snd (upload_call env uid file w)\<rparr>))
      | None \<Rightarrow>
          (case fst (insert_call env uid file w) of
             Some e \<Rightarrow>
               setUploading False (notify (ErrorMessage e)
                 ((send (PhotosInsert uid (fileName file) (filePath env uid file) (fileSize file))
                    (send (StorageUpload (filePath env uid file) file) (setUploading True w)))
                    \<lparr>db := snd (insert_call env uid file w)\<rparr>))
           | None \<Rightarrow>
               setUploading False (fetchPhotos env (notify PhotoUploaded
                 ((send (PhotosInsert uid (fileName file) (filePath env uid file) (fileSize file))
                    (send (StorageUpload (filePath env uid file) file) (setUploading True w)))
                    \<lparr>db := snd (insert_call env uid file w)\<rparr>)))))"
  using assms
  by (simp add: uploadFile_def Let_def case_prod_beta send_def not_less [symmetric]
      split: option.splits)

lemma filePath_in_own_folder:
  "array_first (foldername (filePath env uid file)) = Some (uuid_text uid)"
  unfolding filePath_def by (rule first_folder_of_own_path)

lemma own_path_upload_allowed:
  "insert_allowed objects_policies (Some uid)
     \<lparr>bucket_id = ''photos'', name = filePath env uid file, mimetype = ctype, byte_size = sz\<rparr>"
  by (simp add: objects_insert_iff own_folder_iff filePath_in_own_folder)

lemma uploadFile_sent:
  assumes "userId (ui w) = Some uid" and "prefix ''image/'' (fileType file)"
    and "fileSize file \<le> 10 * 1024 * 1024"
  shows "sent (uploadFile env file w) =
     sent w @ StorageUpload (filePath env uid file) file #
       (if fst (upload_call env uid file w) = None
        then PhotosInsert uid (fileName file) (filePath env uid file) (fileSize file) #
               (if fst (insert_call env uid file w) = None then [PhotosSelect] else [])
        else [])"
  using assms(1)
  by (auto simp: uploadFile_accepted [OF assms] step_simps fetchPhotos_sent split: option.splits)




















lemma validation_signed_in:
  assumes "userId (ui w) = Some uid"
  shows "((uploadFile env file w = notify OnlyImagesAllowed w
            \<or> uploadFile env file w = notify FileTooLarge w)
          \<longleftrightarrow> (\<not> prefix ''image/'' (fileType file) \<or> 10 * 1024 * 1024 < fileSize file))
       \<and> (\<not> prefix ''image/'' (fileType file) \<or> 10 * 1024 * 1024 < fileSize file \<longrightarrow>
             sent (uploadFile env file w) = sent w \<and> db (uploadFile env file w) = db w)
       \<and> (prefix ''image/'' (fileType file) \<and> fileSize file \<le> 10 * 1024 * 1024 \<longrightarrow>
             (\<exists>rest. sent (uploadFile env file w) =
                       sent w @ StorageUpload (filePath env uid file) file # rest))
       \<and> (prefix ''image/'' (fileType file) \<and> fileSize file = 5 * 1024 * 1024 \<longrightarrow>
             sent (uploadFile env file w) \<noteq> sent w)
       \<and> (fileSize file = 11 * 1024 * 1024 \<longrightarrow>
             sent (uploadFile env file w) = sent w
             \<and> (uploadFile env file w = notify OnlyImagesAllowed w
                  \<or> uploadFile env file w = notify FileTooLarge w))
       \<and> (\<forall>ctype sz. insert_allowed objects_policies (Some uid)
             \<lparr>bucket_id = ''photos'', name = filePath env uid file,
              mimetype = ctype, byte_size = sz\<rparr>)"
proof -
  let ?bad = "\<not> prefix ''image/'' (fileType file) \<or> 10 * 1024 * 1024 < fileSize file"
  let ?rejected = "uploadFile env file w = notify OnlyImagesAllowed w
            \<or> uploadFile env file w = notify FileTooLarge w"
  have bad: "?rejected" if "?bad"
    using that uploadFile_not_image [OF assms, where ?file = "file" and ?env = env]
      uploadFile_too_large [OF assms, where ?file = "file" and ?env = env]
    by blast
  have silent: "sent (uploadFile env file w) = sent w \<and> db (uploadFile env file w) = db w"
    if "?rejected"
    using that by (auto simp: step_simps)
  have good: "\<exists>rest. sent (uploadFile env file w) =
                       sent w @ StorageUpload (filePath env uid file) file # rest"
    if "prefix ''image/'' (fileType file) \<and> fileSize file \<le> 10 * 1024 * 1024"
    using that uploadFile_sent [OF assms, where ?file = "file" and ?env = env] by blast
  have moved: "sent (uploadFile env file w) \<noteq> sent w"
    if "prefix ''image/'' (fileType file) \<and> fileSize file \<le> 10 * 1024 * 1024"
    using good [OF that] by auto
  have iff: "?rejected \<longleftrightarrow> ?bad"
  proof
    assume ?rejected
    from silent [OF this] have "sent (uploadFile env file w) = sent w" by simp
    with moved show ?bad by (meson not_le_imp_less)
  next
    assume ?bad
    then show ?rejected by (rule bad)
  qed
  have five: "prefix ''image/'' (fileType file) \<and> fileSize file = 5 * 1024 * 1024 \<longrightarrow>
             sent (uploadFile env file w) \<noteq> sent w"
    using moved by simp
  have eleven: "fileSize file = 11 * 1024 * 1024 \<longrightarrow>
             sent (uploadFile env file w) = sent w
             \<and> (uploadFile env file w = notify OnlyImagesAllowed w
                  \<or> uploadFile env file w = notify FileTooLarge w)"
  proof
    assume "fileSize file = 11 * 1024 * 1024"
    then have ?bad by simp
    from bad [OF this] silent [OF bad [OF this]]
    show "sent (uploadFile env file w) = sent w \<and> ?rejected" by simp
  qed
  have open_door: "\<forall>ctype sz. insert_allowed objects_policies (Some uid)
             \<lparr>bucket_id = ''photos'', name = filePath env uid file,
              mimetype = ctype, byte_size = sz\<rparr>"
    by (simp add: own_path_upload_allowed)
  from iff bad silent good five eleven open_door show ?thesis by blast
qed

text \<open>
  Claim C8, as amended. For a client that knows its session's identity, \<open>uploadFile\<close>
  rejects a file (it ends with the notification of the failed check) exactly when the
  file's type does not start with \<^verbatim>\<open>image/\<close> or its size is above \<open>10 * 1024 * 1024\<close>
  bytes; a rejected file causes no request and no change of the database, an accepted one
  has its upload sent. An image of 5 MB is accepted and a file of 11 MB is rejected. The
  check is the client's alone: the upload policy of the storage admits an object of any
  content type and size under the caller's own folder. For a client whose session's
  identity is not known, \<open>uploadFile\<close> returns at once, whatever the file: no request,
  no notification.

  The claim as written, for every file submitted, fails in that second state; the last
  theorem of this part runs a text file and a 5 MB image there, and both come back with
  nothing sent and nothing shown.
\<close>

theorem validation_rejects_before_any_request:
  "(userId (ui w) = Some uid \<longrightarrow>
       ((uploadFile env file w = notify OnlyImagesAllowed w
             \<or> uploadFile env file w = notify FileTooLarge w)
           \<longleftrightarrow> (\<not> prefix ''image/'' (fileType file) \<or> 10 * 1024 * 1024 < fileSize file))
        \<and> (\<not> prefix ''image/'' (fileType file) \<or> 10 * 1024 * 1024 < fileSize file \<longrightarrow>
              sent (uploadFile env file w) = sent w \<and> db (uploadFile env file w) = db w)
        \<and> (prefix ''image/'' (fileType file) \<and> fileSize file \<le> 10 * 1024 * 1024 \<longrightarrow>
              (\<exists>rest. sent (uploadFile env file w) =
                        sent w @ StorageUpload (filePath env uid file) file # rest))
        \<and> (prefix ''image/'' (fileType file) \<and> fileSize file = 5 * 1024 * 1024 \<longrightarrow>
              sent (uploadFile env file w) \<noteq> sent w)
        \<and> (fileSize file = 11 * 1024 * 1024 \<longrightarrow>
              sent (uploadFile env file w) = sent w
              \<and> (uploadFile env file w = notify OnlyImagesAllowed w
                   \<or> uploadFile env file w = notify FileTooLarge w))
        \<and> (\<forall>ctype sz. insert_allowed objects_policies (Some uid)
              \<lparr>bucket_id = ''photos'', name = filePath env uid file,
               mimetype = ctype, byte_size = sz\<rparr>))
   \<and> (userId (ui w) = None \<longrightarrow> uploadFile env file w = w)"
proof (rule conjI; rule impI)
  assume "userId (ui w) = Some uid"
  then show "((uploadFile env file w = notify OnlyImagesAllowed w
            \<or> uploadFile env file w = notify FileTooLarge w)
          \<longleftrightarrow> (\<not> prefix ''image/'' (fileType file) \<or> 10 * 1024 * 1024 < fileSize file))
       \<and> (\<not> prefix ''image/'' (fileType file) \<or> 10 * 1024 * 1024 < fileSize file \<longrightarrow>
             sent (uploadFile env file w) = sent w \<and> db (uploadFile env file w) = db w)
       \<and> (prefix ''image/'' (fileType file) \<and> fileSize file \<le> 10 * 1024 * 1024 \<longrightarrow>
             (\<exists>rest. sent (uploadFile env file w) =
                       sent w @ StorageUpload (filePath env uid file) file # rest))
       \<and> (prefix ''image/'' (fileType file) \<and> fileSize file = 5 * 1024 * 1024 \<longrightarrow>
             sent (uploadFile env file w) \<noteq> sent w)
       \<and> (fileSize file = 11 * 1024 * 1024 \<longrightarrow>
             sent (uploadFile env file w) = sent w
             \<and> (uploadFile env file w = notify OnlyImagesAllowed w
                  \<or> uploadFile env file w = notify FileTooLarge w))
       \<and> (\<forall>ctype sz. insert_allowed objects_policies (Some uid)
             \<lparr>bucket_id = ''photos'', name = filePath env uid file,
              mimetype = ctype, byte_size = sz\<rparr>)"
    by (rule validation_signed_in)
next
  assume "userId (ui w) = None"
  then show "uploadFile env file w = w" by (rule uploadFile_no_session)
qed

theorem validation_rejects_before_any_request_witness:
  "userId (ui alice_world) = Some alice
   \<and> uploadFile calm big_file alice_world = notify FileTooLarge alice_world
   \<and> uploadFile calm text_file alice_world = notify OnlyImagesAllowed alice_world
   \<and> sent (uploadFile calm big_file alice_world) = []
   \<and> sent (uploadFile calm text_file alice_world) = []
   \<and> sent (uploadFile calm owl_file alice_world) \<noteq> []
   \<and> insert_allowed objects_policies (Some alice)
        \<lparr>bucket_id = ''photos'', name = filePath calm alice big_file,
         mimetype = ''text/plain'', byte_size = 11 * 1024 * 1024\<rparr>"
proof -
  have h: "userId (ui alice_world) = Some alice" by (simp add: alice_world_def)
  have e: "sent alice_world = []" by (simp add: alice_world_def)
  have big: "uploadFile calm big_file alice_world = notify FileTooLarge alice_world"
    by (rule uploadFile_too_large [OF h]) (simp_all add: big_file_def)
  have plain: "uploadFile calm text_file alice_world = notify OnlyImagesAllowed alice_world"
    by (rule uploadFile_not_image [OF h]) (simp add: text_file_def)
  have owl: "prefix ''image/'' (fileType owl_file) \<and> fileSize owl_file = 5 * 1024 * 1024"
    by (simp add: owl_file_def)
  from validation_rejects_before_any_request
      [where w = alice_world and uid = alice and ?env = calm and ?file = owl_file] h owl
  have o: "sent (uploadFile calm owl_file alice_world) \<noteq> []" by (simp add: e)
  from validation_rejects_before_any_request
      [where w = alice_world and uid = alice and ?env = calm and ?file = big_file] h
  have p: "insert_allowed objects_policies (Some alice)
        \<lparr>bucket_id = ''photos'', name = filePath calm alice big_file,
         mimetype = ''text/plain'', byte_size = 11 * 1024 * 1024\<rparr>" by blast
  from h big plain o p show ?thesis by (simp add: step_simps e)
qed

theorem signed_out_upload_counterexample:
  "userId (ui signed_out_world) = None
   \<and> \<not> prefix ''image/'' (fileType text_file)
   \<and> uploadFile calm text_file signed_out_world = signed_out_world
   \<and> uploadFile calm text_file signed_out_world \<noteq> notify OnlyImagesAllowed signed_out_world
   \<and> uploadFile calm text_file signed_out_world \<noteq> notify FileTooLarge signed_out_world
   \<and> toasts (ui (uploadFile calm text_file signed_out_world)) = []
   \<and> prefix ''image/'' (fileType owl_file)
   \<and> fileSize owl_file = 5 * 1024 * 1024
   \<and> uploadFile calm owl_file signed_out_world = signed_out_world
   \<and> sent (uploadFile calm owl_file signed_out_world) = []
   \<and> \<not> ((uploadFile calm text_file signed_out_world = notify OnlyImagesAllowed signed_out_world
           \<or> uploadFile calm text_file signed_out_world = notify FileTooLarge signed_out_world)
          \<longleftrightarrow> (\<not> prefix ''image/'' (fileType text_file)
                \<or> 10 * 1024 * 1024 < fileSize text_file))"
proof -
  have n: "userId (ui signed_out_world) = None" by (simp add: signed_out_world_def)
  have t: "toasts (ui signed_out_world) = []" "sent signed_out_world = []"
    by (simp_all add: signed_out_world_def)
  have a: "uploadFile calm text_file signed_out_world = signed_out_world"
    "uploadFile calm owl_file signed_out_world = signed_out_world"
    by (simp_all add: uploadFile_no_session [OF n])
  have b: "signed_out_world \<noteq> notify OnlyImagesAllowed signed_out_world"
    "signed_out_world \<noteq> notify FileTooLarge signed_out_world"
  proof -
    have "toasts (ui (notify OnlyImagesAllowed signed_out_world)) \<noteq> toasts (ui signed_out_world)"
      "toasts (ui (notify FileTooLarge signed_out_world)) \<noteq> toasts (ui signed_out_world)"
      by (simp_all add: step_simps)
    then show "signed_out_world \<noteq> notify OnlyImagesAllowed signed_out_world"
      "signed_out_world \<noteq> notify FileTooLarge signed_out_world"
      by metis+
  qed
  have f: "\<not> prefix ''image/'' (fileType text_file)" "prefix ''image/'' (fileType owl_file)"
    "fileSize owl_file = 5 * 1024 * 1024"
    by (simp_all add: text_file_def owl_file_def)
  from n a b t f show ?thesis by simp
qed

end
